theory Spec2Isabelle
  imports Main
begin

section \<open>Strings and JavaScript values\<close>

text \<open>
  JavaScript strings are modelled as \<open>string\<close> (a list of 8-bit characters), which covers
  the ASCII payloads the providers send (hexadecimal commit SHAs, enum tags, cause texts).
  An optional or nullable field is an \<open>option\<close>; a value is truthy when it is present and,
  for a string, not empty.
\<close>

definition truthy :: "string option \<Rightarrow> bool" where
  "truthy v = (case v of None \<Rightarrow> False | Some s \<Rightarrow> s \<noteq> [])"

text \<open>\<open>a || b\<close> on optional strings: the left operand when truthy, otherwise the right.\<close>

definition js_or :: "string option \<Rightarrow> string option \<Rightarrow> string option" where
  "js_or a b = (if truthy a then a else b)"

text \<open>\<open>String.prototype.startsWith\<close>.\<close>

definition startsWith :: "string \<Rightarrow> string \<Rightarrow> bool" where
  "startsWith s p = (take (length p) s = p)"

text \<open>\<open>String.prototype.includes\<close>: the needle occurs at some position of the string.\<close>

fun includes_str :: "string \<Rightarrow> string \<Rightarrow> bool" where
  "includes_str [] p = (p = [])"
| "includes_str (c # s) p = (startsWith (c # s) p \<or> includes_str s p)"

text \<open>\<open>x?.includes(p)\<close>: false (undefined) when the receiver is absent.\<close>

definition opt_includes :: "string option \<Rightarrow> string \<Rightarrow> bool" where
  "opt_includes v p = (case v of None \<Rightarrow> False | Some s \<Rightarrow> includes_str s p)"

text \<open>\<open>String.prototype.toLowerCase\<close> on ASCII: the letters A to Z are mapped to a to z.\<close>

definition lower_char :: "char \<Rightarrow> char" where
  "lower_char c =
     (let n = (of_char c :: nat) in if 65 \<le> n \<and> n \<le> 90 then char_of (n + 32) else c)"

definition toLowerCase :: "string \<Rightarrow> string" where
  "toLowerCase s = map lower_char s"

text \<open>\<open>String.prototype.trim\<close> on ASCII: tab, line feed, vertical tab, form feed, carriage
  return and space are removed from both ends.\<close>

definition isWhitespace :: "char \<Rightarrow> bool" where
  "isWhitespace c = (let n = (of_char c :: nat) in (9 \<le> n \<and> n \<le> 13) \<or> n = 32)"

definition trim :: "string \<Rightarrow> string" where
  "trim s = rev (dropWhile isWhitespace (rev (dropWhile isWhitespace s)))"

section \<open>Errors\<close>

text \<open>
  Every \<open>throw\<close> and every rejected promise is a value \<open>Inl e\<close> of a result type
  \<open>error + 'a\<close>. \<open>Error\<close> carries the message of a \<open>new Error(...)\<close>;
  \<open>BuildTimeoutError n\<close> is the error with the message
  \<open>Build #n did not complete within the timeout period\<close>; \<open>AssertionError\<close> is a failed
  \<open>expect\<close>; \<open>TypeError\<close> is a property read on \<open>undefined\<close>; \<open>TransportError\<close> is a
  rejected HTTP request of a provider client.
\<close>

datatype error =
    Error string
  | BuildTimeoutError int
  | AssertionError string
  | TypeError string
  | TransportError string

section \<open>Canonical status model\<close>

text \<open>The \<open>PipelineStatus\<close> enum of the CI interface.\<close>

datatype PipelineStatus = PENDING | RUNNING | SUCCESS | FAILURE | CANCELLED | UNKNOWN

text \<open>The \<open>EventType\<close> enum of the CI interface.\<close>

datatype EventType = EV_PULL_REQUEST | EV_PUSH

subsection \<open>Azure: raw runs and their enums\<close>

text \<open>
  The Azure enums are string enums; a raw payload may carry any string, so the fields
  are strings and the enum members are the string constants below.
\<close>

definition AzurePipelineRunStatus_CANCELLING :: string where
  "AzurePipelineRunStatus_CANCELLING = ''cancelling''"
definition AzurePipelineRunStatus_COMPLETED :: string where
  "AzurePipelineRunStatus_COMPLETED = ''completed''"
definition AzurePipelineRunStatus_IN_PROGRESS :: string where
  "AzurePipelineRunStatus_IN_PROGRESS = ''inProgress''"
definition AzurePipelineRunStatus_NOT_STARTED :: string where
  "AzurePipelineRunStatus_NOT_STARTED = ''notStarted''"
definition AzurePipelineRunStatus_POSTPONED :: string where
  "AzurePipelineRunStatus_POSTPONED = ''postponed''"

definition AzurePipelineRunResult_CANCELED :: string where
  "AzurePipelineRunResult_CANCELED = ''canceled''"
definition AzurePipelineRunResult_FAILED :: string where
  "AzurePipelineRunResult_FAILED = ''failed''"
definition AzurePipelineRunResult_SUCCEEDED :: string where
  "AzurePipelineRunResult_SUCCEEDED = ''succeeded''"
definition AzurePipelineRunResult_PARTIALLY_SUCCEEDED :: string where
  "AzurePipelineRunResult_PARTIALLY_SUCCEEDED = ''partiallySucceeded''"

definition AzurePipelineTriggerReason_MANUAL :: string where
  "AzurePipelineTriggerReason_MANUAL = ''manual''"
definition AzurePipelineTriggerReason_INDIVIDUAL_CI :: string where
  "AzurePipelineTriggerReason_INDIVIDUAL_CI = ''individualCI''"
definition AzurePipelineTriggerReason_SCHEDULE :: string where
  "AzurePipelineTriggerReason_SCHEDULE = ''schedule''"
definition AzurePipelineTriggerReason_PULL_REQUEST :: string where
  "AzurePipelineTriggerReason_PULL_REQUEST = ''pullRequest''"
definition AzurePipelineTriggerReason_UNKNOWN :: string where
  "AzurePipelineTriggerReason_UNKNOWN = ''unknown''"

text \<open>\<open>Object.values(AzurePipelineTriggerReason)\<close>, in declaration order.\<close>

definition AzurePipelineTriggerReason_values :: "string list" where
  "AzurePipelineTriggerReason_values =
     [''manual'', ''individualCI'', ''batchedCI'', ''schedule'', ''pullRequest'',
      ''userCreated'', ''validateShelveset'', ''checkInShelveset'', ''resourceTrigger'',
      ''buildCompletion'', ''unknown'']"

text \<open>
  The fields of \<open>AzurePipelineRun\<close> that the code reads. \<open>run_web_href\<close> is
  \<open>_links?.web?.href\<close>; \<open>run_triggerInfo\<close> is the string-keyed dictionary.
\<close>

record AzurePipelineRun =
  run_id :: int
  run_name :: string
  run_state :: string
  run_result :: "string option"
  run_createdDate :: string
  run_finishedDate :: "string option"
  run_web_href :: "string option"
  run_triggerInfo :: "(string \<rightharpoonup> string) option"
  run_sourceVersion :: "string option"
  run_reason :: "string option"

text \<open>
  \<open>AzureCI.mapAzureStatusToPipelineStatus\<close>. The argument is optional because the
  method starts with \<open>if (!azureRun) return PipelineStatus.UNKNOWN\<close>. The outer
  \<open>switch\<close> is on the state, the inner one, for a completed run, on the result.
\<close>

definition mapAzureStatusToPipelineStatus :: "AzurePipelineRun option \<Rightarrow> PipelineStatus" where
  "mapAzureStatusToPipelineStatus azureRun =
     (case azureRun of
        None \<Rightarrow> UNKNOWN
      | Some r \<Rightarrow>
          if run_state r = AzurePipelineRunStatus_IN_PROGRESS
             \<or> run_state r = AzurePipelineRunStatus_NOT_STARTED
             \<or> run_state r = AzurePipelineRunStatus_POSTPONED then RUNNING
          else if run_state r = AzurePipelineRunStatus_CANCELLING then RUNNING
          else if run_state r = AzurePipelineRunStatus_COMPLETED then
            (if run_result r = Some AzurePipelineRunResult_SUCCEEDED then SUCCESS
             else if run_result r = Some AzurePipelineRunResult_PARTIALLY_SUCCEEDED then SUCCESS
             else if run_result r = Some AzurePipelineRunResult_FAILED then FAILURE
             else if run_result r = Some AzurePipelineRunResult_CANCELED then CANCELLED
             else UNKNOWN)
          else UNKNOWN)"

subsection \<open>Jenkins: raw builds\<close>

text \<open>
  \<open>JenkinsBuild.actions\<close> is typed \<open>any[]\<close>; an action is modelled by the optional
  fields the code reads: \<open>_class\<close>, \<open>lastBuiltRevision\<close> (with its \<open>SHA1\<close>),
  \<open>buildsByBranchName\<close> (branch names in insertion order, each entry with an optional
  \<open>revision\<close>), \<open>parameters\<close> and \<open>pullRequest\<close> (with \<open>source?.commit\<close>).
\<close>

record Revision =
  rev_SHA1 :: "string option"

record JenkinsParameter =
  param_name :: "string option"
  param_val :: "string option"

record PullRequestInfo =
  pri_source_commit :: "string option"

record JenkinsAction =
  act_class :: "string option"
  act_lastBuiltRevision :: "Revision option"
  act_buildsByBranchName :: "(string \<times> Revision option) list option"
  act_parameters :: "JenkinsParameter list option"
  act_pullRequest :: "PullRequestInfo option"

record JenkinsCause =
  cause_shortDescription :: "string option"
  cause_class :: "string option"

text \<open>\<open>JenkinsBuild\<close>; \<open>b_result\<close> is the raw result string, \<open>None\<close> for \<open>null\<close>.\<close>

record JenkinsBuild =
  b_number :: int
  b_url :: string
  b_displayName :: "string option"
  b_building :: bool
  b_result :: "string option"
  b_actions :: "JenkinsAction list option"
  b_causes :: "JenkinsCause list option"
  b_description :: "string option"

text \<open>
  The status part of \<open>JenkinsClient.convertBuildToPipeline\<close>: \<open>status\<close> starts as
  \<open>UNKNOWN\<close>, a running build is \<open>RUNNING\<close>, and a truthy result goes through the
  \<open>switch\<close> over \<open>JenkinsBuildResult\<close>.
\<close>

definition jenkinsBuildStatus :: "JenkinsBuild \<Rightarrow> PipelineStatus" where
  "jenkinsBuildStatus build =
     (if b_building build then RUNNING
      else if truthy (b_result build) then
        (if b_result build = Some ''SUCCESS'' then SUCCESS
         else if b_result build = Some ''FAILURE'' then FAILURE
         else if b_result build = Some ''UNSTABLE'' then FAILURE
         else if b_result build = Some ''ABORTED'' then FAILURE
         else if b_result build = Some ''NOT_BUILT'' then PENDING
         else UNKNOWN)
      else UNKNOWN)"

text \<open>
  The arguments \<open>convertBuildToPipeline\<close> passes to \<open>Pipeline.createJenkinsPipeline\<close>.
  \<open>jp_results\<close> stands for \<open>JSON.stringify(build.actions || {})\<close> and holds the actions
  themselves.
\<close>

record JenkinsPipelineArgs =
  jp_jobName :: string
  jp_buildNumber :: int
  jp_status :: PipelineStatus
  jp_repositoryName :: string
  jp_logs :: string
  jp_results :: "JenkinsAction list"
  jp_url :: string
  jp_sha :: "string option"

definition convertBuildToPipeline ::
  "JenkinsBuild \<Rightarrow> string \<Rightarrow> string \<Rightarrow> string \<Rightarrow> string option \<Rightarrow> JenkinsPipelineArgs" where
  "convertBuildToPipeline build jobName repositoryName logs sha =
     \<lparr> jp_jobName = jobName,
       jp_buildNumber = b_number build,
       jp_status = jenkinsBuildStatus build,
       jp_repositoryName = repositoryName,
       jp_logs = logs,
       jp_results = (case b_actions build of None \<Rightarrow> [] | Some as \<Rightarrow> as),
       jp_url = b_url build,
       jp_sha = sha \<rparr>"

subsection \<open>The mapping tables, as the specification words them\<close>

text \<open>
  The specification describes normalisation as a table lookup with \<open>UNKNOWN\<close> for every
  pair the table lacks. \<open>azure_state_table\<close> lists the states that decide the status
  alone, \<open>azure_result_table\<close> the results of a completed run, \<open>jenkins_result_table\<close>
  the results of a finished build.
\<close>

definition azure_state_table :: "(string \<times> PipelineStatus) list" where
  "azure_state_table =
     [(''inProgress'', RUNNING), (''notStarted'', RUNNING), (''postponed'', RUNNING),
      (''cancelling'', RUNNING)]"

definition azure_result_table :: "(string \<times> PipelineStatus) list" where
  "azure_result_table =
     [(''succeeded'', SUCCESS), (''partiallySucceeded'', SUCCESS), (''failed'', FAILURE),
      (''canceled'', CANCELLED)]"

definition azure_table_lookup :: "string \<Rightarrow> string option \<Rightarrow> PipelineStatus option" where
  "azure_table_lookup st res =
     (case map_of azure_state_table st of
        Some s \<Rightarrow> Some s
      | None \<Rightarrow>
          if st = ''completed'' then
            (case res of None \<Rightarrow> None | Some r \<Rightarrow> map_of azure_result_table r)
          else None)"

definition jenkins_result_table :: "(string \<times> PipelineStatus) list" where
  "jenkins_result_table =
     [(''SUCCESS'', SUCCESS), (''FAILURE'', FAILURE), (''UNSTABLE'', FAILURE),
      (''ABORTED'', FAILURE), (''NOT_BUILT'', PENDING)]"

definition jenkins_table_lookup :: "bool \<Rightarrow> string option \<Rightarrow> PipelineStatus option" where
  "jenkins_table_lookup building res =
     (if building then Some RUNNING
      else case res of None \<Rightarrow> None | Some r \<Rightarrow> map_of jenkins_result_table r)"

definition or_UNKNOWN :: "PipelineStatus option \<Rightarrow> PipelineStatus" where
  "or_UNKNOWN v = (case v of None \<Rightarrow> UNKNOWN | Some s \<Rightarrow> s)"

section \<open>Trigger classification\<close>

text \<open>
  \<open>AzureClient.determineTriggerEvent\<close>. A reason that is truthy and a member of the enum
  is returned as it is. Otherwise the trigger dictionary is inspected, the pull-request
  keys before the CI keys; then the manual and schedule reasons; then \<open>unknown\<close>.
\<close>

definition determineTriggerEvent :: "AzurePipelineRun \<Rightarrow> string" where
  "determineTriggerEvent run =
     (if truthy (run_reason run) \<and> the (run_reason run) \<in> set AzurePipelineTriggerReason_values
      then the (run_reason run)
      else if (case run_triggerInfo run of
                 None \<Rightarrow> False
               | Some ti \<Rightarrow> truthy (ti ''pr.pullRequestId'')
                            \<or> ti ''Build.Reason'' = Some ''PullRequest'')
      then AzurePipelineTriggerReason_PULL_REQUEST
      else if (case run_triggerInfo run of
                 None \<Rightarrow> False
               | Some ti \<Rightarrow> truthy (ti ''ci.sourceSha'')
                            \<or> ti ''Build.Reason'' = Some ''IndividualCI''
                            \<or> ti ''Build.Reason'' = Some ''BatchedCI'')
      then AzurePipelineTriggerReason_INDIVIDUAL_CI
      else if run_reason run = Some ''manual'' \<or> run_reason run = Some ''userCreated''
      then AzurePipelineTriggerReason_MANUAL
      else if run_reason run = Some ''schedule''
      then AzurePipelineTriggerReason_SCHEDULE
      else AzurePipelineTriggerReason_UNKNOWN)"

text \<open>The \<open>JenkinsBuildTrigger\<close> enum.\<close>

datatype JenkinsBuildTrigger =
  JT_UNKNOWN | JT_PULL_REQUEST | JT_PUSH | JT_MANUAL | JT_SCHEDULED | JT_API

text \<open>
  The condition of the first loop of \<open>JenkinsClient.determineBuildTrigger\<close>: the action
  is a pull-request action by its class, by its \<open>pullRequest\<close> field, or by a parameter
  whose name contains \<open>ghpr\<close>, \<open>pull\<close> or \<open>PR\<close>.
\<close>

definition isPullRequestAction :: "JenkinsAction \<Rightarrow> bool" where
  "isPullRequestAction action =
     (opt_includes (act_class action) ''pull-request''
      \<or> opt_includes (act_class action) ''PullRequestAction''
      \<or> act_pullRequest action \<noteq> None
      \<or> (case act_parameters action of
            None \<Rightarrow> False
          | Some ps \<Rightarrow>
              list_ex (\<lambda>p. opt_includes (param_name p) ''ghpr''
                          \<or> opt_includes (param_name p) ''pull''
                          \<or> opt_includes (param_name p) ''PR'') ps))"

text \<open>The five tests the second loop applies to one cause, in the source's order.\<close>

definition causeIsPullRequest :: "JenkinsCause \<Rightarrow> bool" where
  "causeIsPullRequest cause =
     (truthy (cause_shortDescription cause)
      \<and> (includes_str (toLowerCase (the (cause_shortDescription cause))) ''pull request''
         \<or> includes_str (toLowerCase (the (cause_shortDescription cause))) ''pr ''
         \<or> opt_includes (map_option toLowerCase (cause_class cause)) ''pullrequest''))"

definition causeIsPush :: "JenkinsCause \<Rightarrow> bool" where
  "causeIsPush cause =
     (truthy (cause_shortDescription cause)
      \<and> (includes_str (the (cause_shortDescription cause)) ''push''
         \<or> opt_includes (cause_class cause) ''GitHubPushCause''
         \<or> opt_includes (cause_class cause) ''GitLabWebHookCause''))"

definition causeIsManual :: "JenkinsCause \<Rightarrow> bool" where
  "causeIsManual cause =
     (truthy (cause_shortDescription cause)
      \<and> (includes_str (the (cause_shortDescription cause)) ''Started by user''
         \<or> opt_includes (cause_class cause) ''UserIdCause''))"

definition causeIsScheduled :: "JenkinsCause \<Rightarrow> bool" where
  "causeIsScheduled cause =
     (truthy (cause_shortDescription cause)
      \<and> (includes_str (the (cause_shortDescription cause)) ''timer''
         \<or> opt_includes (cause_class cause) ''TimerTrigger''))"

definition causeIsApi :: "JenkinsCause \<Rightarrow> bool" where
  "causeIsApi cause =
     (truthy (cause_shortDescription cause)
      \<and> (includes_str (the (cause_shortDescription cause)) ''remote''
         \<or> opt_includes (cause_class cause) ''RemoteCause''))"

text \<open>
  The loop over \<open>build.causes\<close>: the first cause that passes one of the five tests
  returns from the function; \<open>None\<close> when the loop ends without a return.
\<close>

fun classifyCauses :: "JenkinsCause list \<Rightarrow> JenkinsBuildTrigger option" where
  "classifyCauses [] = None"
| "classifyCauses (cause # causes) =
     (if causeIsPullRequest cause then Some JT_PULL_REQUEST
      else if causeIsPush cause then Some JT_PUSH
      else if causeIsManual cause then Some JT_MANUAL
      else if causeIsScheduled cause then Some JT_SCHEDULED
      else if causeIsApi cause then Some JT_API
      else classifyCauses causes)"

definition hasGitInformation :: "JenkinsAction \<Rightarrow> bool" where
  "hasGitInformation action =
     (opt_includes (act_class action) ''git''
      \<or> act_lastBuiltRevision action \<noteq> None
      \<or> act_buildsByBranchName action \<noteq> None)"

text \<open>\<open>JenkinsClient.determineBuildTrigger\<close>.\<close>

definition determineBuildTrigger :: "JenkinsBuild \<Rightarrow> JenkinsBuildTrigger" where
  "determineBuildTrigger build =
     (if (case b_actions build of None \<Rightarrow> False | Some as \<Rightarrow> list_ex isPullRequestAction as)
      then JT_PULL_REQUEST
      else case (case b_causes build of None \<Rightarrow> None | Some cs \<Rightarrow> classifyCauses cs) of
        Some t \<Rightarrow> t
      | None \<Rightarrow>
          if (case b_actions build of None \<Rightarrow> False | Some as \<Rightarrow> list_ex hasGitInformation as)
          then JT_PUSH
          else JT_UNKNOWN)"

text \<open>
  The signals the specification speaks of, for a Jenkins build: a pull-request signal is
  an action or a cause that passes the pull-request test, a push signal is a cause that
  passes the push test or an action with git information.
\<close>

definition jenkinsPullRequestSignal :: "JenkinsBuild \<Rightarrow> bool" where
  "jenkinsPullRequestSignal build =
     ((case b_actions build of None \<Rightarrow> False | Some as \<Rightarrow> list_ex isPullRequestAction as)
      \<or> (case b_causes build of None \<Rightarrow> False | Some cs \<Rightarrow> list_ex causeIsPullRequest cs))"

definition jenkinsPushSignal :: "JenkinsBuild \<Rightarrow> bool" where
  "jenkinsPushSignal build =
     ((case b_causes build of None \<Rightarrow> False | Some cs \<Rightarrow> list_ex causeIsPush cs)
      \<or> (case b_actions build of None \<Rightarrow> False | Some as \<Rightarrow> list_ex hasGitInformation as))"

section \<open>Jenkins client: the collaborators\<close>

text \<open>
  The HTTP side of the Jenkins client is an external collaborator. For one job,
  \<open>job_response\<close> is what \<open>getJob\<close> resolves to (or the error it rejects with) and
  \<open>build_response n\<close> is what \<open>getBuild\<close> resolves to for build number \<open>n\<close>.
  The job and folder names only select the URL and are not part of the model.
\<close>

record BuildRef =
  ref_number :: int

record JobInfo =
  job_builds :: "BuildRef list option"

record JenkinsWorld =
  job_response :: "error + JobInfo"
  build_response :: "int \<Rightarrow> error + JenkinsBuild"

section \<open>Commit locator\<close>

text \<open>
  The comparison that methods 1 to 4 of \<open>getBuildByCommitSha\<close> write out each time:
  the lower-cased SHA of the build equals the normalised target, or one starts with the
  other.
\<close>

definition shaMatches :: "string \<Rightarrow> string \<Rightarrow> bool" where
  "shaMatches buildSha normalizedCommitSha =
     (buildSha = normalizedCommitSha
      \<or> startsWith buildSha normalizedCommitSha
      \<or> startsWith normalizedCommitSha buildSha)"

text \<open>Method 1: \<open>lastBuiltRevision.SHA1\<close> of an action of the git plugin.\<close>

definition matchLastBuiltRevision :: "JenkinsAction \<Rightarrow> string \<Rightarrow> bool" where
  "matchLastBuiltRevision action n =
     (opt_includes (act_class action) ''hudson.plugins.git''
      \<and> (case act_lastBuiltRevision action of
            None \<Rightarrow> False
          | Some r \<Rightarrow> truthy (rev_SHA1 r) \<and> shaMatches (toLowerCase (the (rev_SHA1 r))) n))"

text \<open>Method 2: some branch of \<open>buildsByBranchName\<close> has a matching revision.\<close>

definition matchBuildsByBranchName :: "JenkinsAction \<Rightarrow> string \<Rightarrow> bool" where
  "matchBuildsByBranchName action n =
     (case act_buildsByBranchName action of
        None \<Rightarrow> False
      | Some branches \<Rightarrow>
          list_ex (\<lambda>(branch, revision).
                     case revision of
                       None \<Rightarrow> False
                     | Some r \<Rightarrow> truthy (rev_SHA1 r)
                                 \<and> shaMatches (toLowerCase (the (rev_SHA1 r))) n)
                  branches)"

text \<open>Method 3: a \<open>GIT_COMMIT\<close> or \<open>ghprbActualCommit\<close> build parameter.\<close>

definition matchParameters :: "JenkinsAction \<Rightarrow> string \<Rightarrow> bool" where
  "matchParameters action n =
     (case act_parameters action of
        None \<Rightarrow> False
      | Some ps \<Rightarrow>
          list_ex (\<lambda>p. (param_name p = Some ''GIT_COMMIT''
                         \<or> param_name p = Some ''ghprbActualCommit'')
                        \<and> truthy (param_val p)
                        \<and> shaMatches (toLowerCase (the (param_val p))) n)
                  ps)"

text \<open>Method 4: the source commit of a pull-request action.\<close>

definition matchPullRequest :: "JenkinsAction \<Rightarrow> string \<Rightarrow> bool" where
  "matchPullRequest action n =
     (opt_includes (act_class action) ''pull-request''
      \<and> (case act_pullRequest action of
            None \<Rightarrow> False
          | Some pr \<Rightarrow> truthy (pri_source_commit pr)
                       \<and> shaMatches (toLowerCase (the (pri_source_commit pr))) n))"

text \<open>
  The loop over the actions of one build: each action is tried with methods 1 to 4 in
  turn, and the first match leaves the loop.
\<close>

fun actionsMatch :: "JenkinsAction list \<Rightarrow> string \<Rightarrow> bool" where
  "actionsMatch [] n = False"
| "actionsMatch (action # actions) n =
     (if matchLastBuiltRevision action n then True
      else if matchBuildsByBranchName action n then True
      else if matchParameters action n then True
      else if matchPullRequest action n then True
      else actionsMatch actions n)"

text \<open>Method 5: a cause whose description contains the normalised target.\<close>

definition causesMatch :: "JenkinsCause list \<Rightarrow> string \<Rightarrow> bool" where
  "causesMatch causes n =
     list_ex (\<lambda>cause. truthy (cause_shortDescription cause)
                      \<and> includes_str (the (cause_shortDescription cause)) n) causes"

text \<open>Method 6: the display name, else the description, contains the normalised target.\<close>

definition displayMatch :: "JenkinsBuild \<Rightarrow> string \<Rightarrow> bool" where
  "displayMatch buildInfo n =
     (if truthy (b_displayName buildInfo) \<and> includes_str (the (b_displayName buildInfo)) n
      then True
      else truthy (b_description buildInfo) \<and> includes_str (the (b_description buildInfo)) n)"

text \<open>The value of \<open>isMatch\<close> for one build at the end of the loop body.\<close>

definition buildMatches :: "JenkinsBuild \<Rightarrow> string \<Rightarrow> bool" where
  "buildMatches buildInfo n =
     (if (case b_actions buildInfo of None \<Rightarrow> False | Some as \<Rightarrow> actionsMatch as n) then True
      else if (case b_causes buildInfo of None \<Rightarrow> False | Some cs \<Rightarrow> causesMatch cs n) then True
      else displayMatch buildInfo n)"

text \<open>
  \<open>Array.prototype.slice(0, m)\<close>: the first \<open>m\<close> elements, and for a negative \<open>m\<close>
  all but the last \<open>-m\<close>.
\<close>

definition slice0 :: "'a list \<Rightarrow> int \<Rightarrow> 'a list" where
  "slice0 xs m = (if 0 \<le> m then take (nat m) xs else take (nat (int (length xs) + m)) xs)"

text \<open>
  The loop over \<open>buildsToCheck\<close>: every build is fetched, a failed fetch throws out of
  the function, and the matching builds are pushed in scan order.
\<close>

fun collectMatching :: "JenkinsWorld \<Rightarrow> string \<Rightarrow> BuildRef list \<Rightarrow> error + JenkinsBuild list" where
  "collectMatching w n [] = Inr []"
| "collectMatching w n (buildRef # refs) =
     (case build_response w (ref_number buildRef) of
        Inl e \<Rightarrow> Inl e
      | Inr buildInfo \<Rightarrow>
          (case collectMatching w n refs of
             Inl e \<Rightarrow> Inl e
           | Inr ms \<Rightarrow> Inr (if buildMatches buildInfo n then buildInfo # ms else ms)))"

text \<open>
  \<open>matchingBuilds.sort((a, b) => b.number - a.number)\<close>: a stable sort by build number,
  descending.
\<close>

definition sortByNumberDesc :: "JenkinsBuild list \<Rightarrow> JenkinsBuild list" where
  "sortByNumberDesc ms = sort_key (\<lambda>b. - b_number b) ms"

text \<open>
  \<open>JenkinsClient.getBuildByCommitSha\<close>. The \<open>catch\<close> block logs and rethrows, so an
  error of a collaborator is the error of the function.
\<close>

definition getBuildByCommitSha ::
  "JenkinsWorld \<Rightarrow> string \<Rightarrow> int \<Rightarrow> error + JenkinsBuild option" where
  "getBuildByCommitSha w commitSha maxBuildsToCheck =
     (let normalizedCommitSha = toLowerCase (trim commitSha) in
      case job_response w of
        Inl e \<Rightarrow> Inl e
      | Inr jobInfo \<Rightarrow>
          (case job_builds jobInfo of
             None \<Rightarrow> Inr None
           | Some builds \<Rightarrow>
               if builds = [] then Inr None
               else
                 (let buildsToCheck = slice0 builds maxBuildsToCheck in
                  case collectMatching w normalizedCommitSha buildsToCheck of
                    Inl e \<Rightarrow> Inl e
                  | Inr matchingBuilds \<Rightarrow>
                      if matchingBuilds = [] then Inr None
                      else Inr (Some (hd (sortByNumberDesc matchingBuilds))))))"



section \<open>Bounded wait for a build\<close>

text \<open>
  \<open>JenkinsClient.waitForBuildCompletion\<close>. Time is a millisecond counter that the
  model threads through the loop. The \<open>k\<close>-th call of \<open>getBuild\<close> takes \<open>fst (fetch k)\<close>
  milliseconds and resolves to \<open>snd (fetch k)\<close>; the \<open>setTimeout\<close> between two polls
  takes \<open>pollIntervalMs\<close>. The loop is \<open>while (true)\<close>, so the model takes fuel: \<open>None\<close>
  means the fuel ran out before the loop was left. A result is the time at which the
  function settles and what it settles with. The clock never runs backwards, so the
  truncating subtraction \<open>now - startTime\<close> is the elapsed time.
\<close>

fun waitLoop ::
  "nat \<Rightarrow> (nat \<Rightarrow> nat \<times> (error + JenkinsBuild)) \<Rightarrow> int \<Rightarrow> nat \<Rightarrow> nat \<Rightarrow> nat \<Rightarrow> nat \<Rightarrow> nat
     \<Rightarrow> (nat \<times> (error + JenkinsBuild)) option" where
  "waitLoop 0 fetch buildNumber startTime timeoutMs pollIntervalMs k now = None"
| "waitLoop (Suc fuel) fetch buildNumber startTime timeoutMs pollIntervalMs k now =
     (let now1 = now + fst (fetch k) in
      case snd (fetch k) of
        Inl e \<Rightarrow> Some (now1, Inl e)
      | Inr buildInfo \<Rightarrow>
          if \<not> b_building buildInfo then Some (now1, Inr buildInfo)
          else if now1 - startTime > timeoutMs then Some (now1, Inl (BuildTimeoutError buildNumber))
          else waitLoop fuel fetch buildNumber startTime timeoutMs pollIntervalMs (Suc k)
                 (now1 + pollIntervalMs))"

definition waitForBuildCompletion ::
  "nat \<Rightarrow> (nat \<Rightarrow> nat \<times> (error + JenkinsBuild)) \<Rightarrow> int \<Rightarrow> nat \<Rightarrow> nat \<Rightarrow> nat
     \<Rightarrow> (nat \<times> (error + JenkinsBuild)) option" where
  "waitForBuildCompletion fuel fetch buildNumber startTime timeoutMs pollIntervalMs =
     waitLoop fuel fetch buildNumber startTime timeoutMs pollIntervalMs 0 startTime"

text \<open>
  The clock of the loop, from the latencies and the poll interval alone.
  \<open>pollStart k\<close> is the time at which round \<open>k\<close> begins: the start time, plus a fetch
  and a sleep for every earlier round. \<open>checkTime k\<close> is the time at which round \<open>k\<close>
  reads \<open>Date.now()\<close> for its timeout check: its fetch has resolved.
\<close>

fun pollStart :: "(nat \<Rightarrow> nat \<times> (error + JenkinsBuild)) \<Rightarrow> nat \<Rightarrow> nat \<Rightarrow> nat \<Rightarrow> nat" where
  "pollStart fetch startTime pollIntervalMs 0 = startTime"
| "pollStart fetch startTime pollIntervalMs (Suc k) =
     pollStart fetch startTime pollIntervalMs k + fst (fetch k) + pollIntervalMs"

definition checkTime :: "(nat \<Rightarrow> nat \<times> (error + JenkinsBuild)) \<Rightarrow> nat \<Rightarrow> nat \<Rightarrow> nat \<Rightarrow> nat" where
  "checkTime fetch startTime pollIntervalMs k =
     pollStart fetch startTime pollIntervalMs k + fst (fetch k)"

section \<open>Azure client and the Azure facade\<close>

text \<open>
  The fields of \<open>AzurePipelineDefinition\<close> that the code reads; \<open>def_repository_name\<close>
  is \<open>repository?.name\<close>.
\<close>

record AzurePipelineDefinition =
  def_id :: int
  def_name :: string
  def_repository_name :: "string option"

text \<open>
  The HTTP side of the Azure client: \<open>pipelines_response\<close> is the answer to the listing
  of pipeline definitions, \<open>runs_response i\<close> the answer to the listing of the runs of
  pipeline \<open>i\<close>; \<open>Inl\<close> is a rejected request.
\<close>

record AzureWorld =
  pipelines_response :: "error + AzurePipelineDefinition list"
  runs_response :: "int \<Rightarrow> error + AzurePipelineRun list"

text \<open>\<open>AzureClient.getPipelineDefinition\<close>: the first definition with the given name.\<close>

definition getPipelineDefinition ::
  "AzureWorld \<Rightarrow> string \<Rightarrow> error + AzurePipelineDefinition option" where
  "getPipelineDefinition w pipelineName =
     (case pipelines_response w of
        Inl e \<Rightarrow> Inl e
      | Inr allPipelines \<Rightarrow> Inr (find (\<lambda>p. def_name p = pipelineName) allPipelines))"

text \<open>\<open>AzureClient.getPipelineIdByName\<close>.\<close>

definition getPipelineIdByName :: "AzureWorld \<Rightarrow> string \<Rightarrow> error + int option" where
  "getPipelineIdByName w pipelineName =
     (case pipelines_response w of
        Inl e \<Rightarrow> Inl e
      | Inr pipelines \<Rightarrow>
          Inr (map_option def_id (find (\<lambda>p. def_name p = pipelineName) pipelines)))"

text \<open>
  The options of \<open>listPipelineRuns\<close>. The method builds no query from them: the code
  that did is commented out, and the request is the plain listing of the runs.
\<close>

record ListPipelineRunsOptions =
  opt_top :: "nat option"
  opt_branchName :: "string option"
  opt_queryOrder :: "string option"
  opt_sourceVersion :: "string option"

definition no_options :: ListPipelineRunsOptions where
  "no_options = \<lparr> opt_top = None, opt_branchName = None, opt_queryOrder = None,
                   opt_sourceVersion = None \<rparr>"

definition listPipelineRuns ::
  "AzureWorld \<Rightarrow> int \<Rightarrow> ListPipelineRunsOptions \<Rightarrow> error + AzurePipelineRun list" where
  "listPipelineRuns w pipelineId options = runs_response w pipelineId"

text \<open>\<open>AzureClient.getLatestPipelineRun\<close>, called without a branch.\<close>

definition getLatestPipelineRun :: "AzureWorld \<Rightarrow> int \<Rightarrow> error + AzurePipelineRun option" where
  "getLatestPipelineRun w pipelineId =
     (case listPipelineRuns w pipelineId
             (no_options\<lparr> opt_top := Some 1, opt_queryOrder := Some ''finishTimeDescending'' \<rparr>) of
        Inl e \<Rightarrow> Inl e
      | Inr runs \<Rightarrow> Inr (case runs of [] \<Rightarrow> None | r # _ \<Rightarrow> Some r))"

text \<open>
  The pull request as the facade reads it: \<open>head?.sha\<close> and \<open>head?.ref\<close>, and the
  number and SHA the promotion workflow logs and passes on.
\<close>

record PullRequestHead =
  head_sha :: "string option"
  head_ref :: "string option"

record PullRequest =
  pr_pullNumber :: int
  pr_sha :: string
  pr_head :: "PullRequestHead option"

text \<open>The members of the \<open>CIType\<close> enum that the sources name.\<close>

datatype CIType = TEKTON | JENKINS | GITHUB_ACTIONS | AZURE

text \<open>
  The canonical \<open>Pipeline\<close>. \<open>p_id\<close> is the pair behind the identifier
  \<open>`${pipelineDef.id}-${azureRun.id}`\<close>; the two dates are kept as the strings the
  \<open>Date\<close> objects are built from.
\<close>

record Pipeline =
  p_id :: "int \<times> int"
  p_ciType :: CIType
  p_repositoryName :: string
  p_status :: PipelineStatus
  p_name :: "string option"
  p_url :: "string option"
  p_startTime :: "string option"
  p_endTime :: "string option"
  p_sha :: "string option"

text \<open>
  The facade instance: its component name and its client, which is \<open>None\<close> until
  \<open>initialize\<close> has run (the field is declared with a definite-assignment assertion).
  Its \<open>ciType\<close> is the constant \<open>CIType.AZURE\<close> the constructor passes on.
\<close>

record AzureCI =
  componentName :: string
  azureClient :: "AzureWorld option"

text \<open>\<open>AzureCI.convertAzureRunToPipeline\<close>.\<close>

definition convertAzureRunToPipeline ::
  "AzureCI \<Rightarrow> AzurePipelineRun \<Rightarrow> AzurePipelineDefinition \<Rightarrow> Pipeline" where
  "convertAzureRunToPipeline ci azureRun pipelineDef =
     \<lparr> p_id = (def_id pipelineDef, run_id azureRun),
       p_ciType = AZURE,
       p_repositoryName =
         (if truthy (def_repository_name pipelineDef) then the (def_repository_name pipelineDef)
          else componentName ci),
       p_status = mapAzureStatusToPipelineStatus (Some azureRun),
       p_name = Some (run_name azureRun),
       p_url = run_web_href azureRun,
       p_startTime = (if run_createdDate azureRun \<noteq> [] then Some (run_createdDate azureRun)
                      else None),
       p_endTime = (if truthy (run_finishedDate azureRun) then run_finishedDate azureRun
                    else None),
       p_sha =
         js_or (run_sourceVersion azureRun)
           (js_or (case run_triggerInfo azureRun of None \<Rightarrow> None | Some ti \<Rightarrow> ti ''ci.sourceSha'')
                  (case run_triggerInfo azureRun of None \<Rightarrow> None | Some ti \<Rightarrow> ti ''pr.sourceSha'')) \<rparr>"

text \<open>
  The two \<open>runs.filter(...)\<close> statements of \<open>getPipeline\<close>. \<open>Array.prototype.filter\<close>
  returns a new array and leaves \<open>runs\<close> as it is; this is the array it returns.
\<close>

definition eventTypeFilter :: "EventType option \<Rightarrow> AzurePipelineRun list \<Rightarrow> AzurePipelineRun list" where
  "eventTypeFilter eventType runs =
     (if eventType = Some EV_PULL_REQUEST
      then filter (\<lambda>run. run_reason run = Some AzurePipelineTriggerReason_PULL_REQUEST) runs
      else if eventType = Some EV_PUSH
      then filter (\<lambda>run. run_reason run = Some AzurePipelineTriggerReason_INDIVIDUAL_CI) runs
      else runs)"

text \<open>
  The body of the \<open>try\<close> block of \<open>AzureCI.getPipeline\<close>. The filtered array is bound
  to \<open>discarded\<close> and not used: the source does not assign the result of \<open>filter\<close>,
  and \<open>targetRun\<close> is \<open>runs[0]\<close>.
\<close>

definition getPipeline_try ::
  "AzureCI \<Rightarrow> PullRequest \<Rightarrow> PipelineStatus option \<Rightarrow> EventType option
     \<Rightarrow> error + Pipeline option" where
  "getPipeline_try ci pullRequest pipelineStatus eventType =
     (case azureClient ci of
        None \<Rightarrow> Inl (TypeError ''Cannot read properties of undefined'')
      | Some client \<Rightarrow>
          (case getPipelineDefinition client (componentName ci) of
             Inl e \<Rightarrow> Inl e
           | Inr None \<Rightarrow> Inr None
           | Inr (Some pipelineDef) \<Rightarrow>
               (case (if truthy (case pr_head pullRequest of None \<Rightarrow> None | Some h \<Rightarrow> head_sha h)
                      then listPipelineRuns client (def_id pipelineDef)
                             (no_options\<lparr> opt_sourceVersion :=
                                             head_sha (the (pr_head pullRequest)),
                                           opt_queryOrder := Some ''finishTimeDescending'' \<rparr>)
                      else if truthy (case pr_head pullRequest of None \<Rightarrow> None
                                      | Some h \<Rightarrow> head_ref h)
                      then listPipelineRuns client (def_id pipelineDef)
                             (no_options\<lparr> opt_branchName :=
                                 (let r = the (head_ref (the (pr_head pullRequest))) in
                                  Some (if startsWith r ''refs/heads/'' then r
                                        else ''refs/heads/'' @ r)),
                                 opt_top := Some 1,
                                 opt_queryOrder := Some ''finishTimeDescending'' \<rparr>)
                      else (case getLatestPipelineRun client (def_id pipelineDef) of
                              Inl e \<Rightarrow> Inl e
                            | Inr None \<Rightarrow> Inr []
                            | Inr (Some latestRun) \<Rightarrow> Inr [latestRun])) of
                  Inl e \<Rightarrow> Inl e
                | Inr runs \<Rightarrow>
                    if runs = [] then Inr None
                    else
                      (let discarded = eventTypeFilter eventType runs;
                           targetRun = hd runs;
                           pipeline = convertAzureRunToPipeline ci targetRun pipelineDef
                       in if pipelineStatus \<noteq> None \<and> Some (p_status pipeline) \<noteq> pipelineStatus
                          then Inr None
                          else Inr (Some pipeline)))))"

text \<open>\<open>AzureCI.getPipeline\<close>: the \<open>catch\<close> block logs the error and returns \<open>null\<close>.\<close>

definition getPipeline ::
  "AzureCI \<Rightarrow> PullRequest \<Rightarrow> PipelineStatus option \<Rightarrow> EventType option
     \<Rightarrow> error + Pipeline option" where
  "getPipeline ci pullRequest pipelineStatus eventType =
     (case getPipeline_try ci pullRequest pipelineStatus eventType of
        Inl e \<Rightarrow> Inr None
      | Inr r \<Rightarrow> Inr r)"

section \<open>Waiting for all runs: the retry wrapper\<close>

text \<open>
  \<open>retry(fn, {retries})\<close> of the async-retry library: \<open>fn\<close> is attempted, an attempt
  that resolves ends the retry with its value, an attempt that rejects is followed by
  another one until \<open>retries\<close> retries have been made, and then the last error is the
  result. \<open>retry_from n k fn\<close> has \<open>n\<close> retries left and has made \<open>k\<close> attempts; it
  returns the number of attempts made and the outcome. The waiting times between the
  attempts are not part of the model.
\<close>

fun retry_from :: "nat \<Rightarrow> nat \<Rightarrow> (nat \<Rightarrow> error + 'a) \<Rightarrow> nat \<times> (error + 'a)" where
  "retry_from 0 k fn = (Suc k, fn k)"
| "retry_from (Suc n) k fn =
     (case fn k of
        Inr v \<Rightarrow> (Suc k, Inr v)
      | Inl e \<Rightarrow> retry_from n (Suc k) fn)"

text \<open>
  The callback of \<open>AzureCI.waitForAllPipelineRunsToFinish\<close>, run against the provider
  as it is at that attempt. An absent client is a \<open>TypeError\<close>. \<open>!pipelineId\<close> holds for
  \<open>null\<close> and for the number 0. Both branches of the last \<open>if\<close> return normally.
\<close>

definition inFlight :: "AzurePipelineRun \<Rightarrow> bool" where
  "inFlight pipelineRun =
     (mapAzureStatusToPipelineStatus (Some pipelineRun) = PENDING
      \<or> mapAzureStatusToPipelineStatus (Some pipelineRun) = RUNNING)"

definition waitForAll_callback :: "string \<Rightarrow> AzureWorld option \<Rightarrow> error + unit" where
  "waitForAll_callback name client =
     (case client of
        None \<Rightarrow> Inl (TypeError ''Cannot read properties of undefined'')
      | Some w \<Rightarrow>
          (case getPipelineIdByName w name of
             Inl e \<Rightarrow> Inl e
           | Inr pipelineId \<Rightarrow>
               if pipelineId = None \<or> pipelineId = Some 0 then Inr ()
               else
                 (case listPipelineRuns w (the pipelineId) no_options of
                    Inl e \<Rightarrow> Inl e
                  | Inr pipelineRuns \<Rightarrow>
                      if length (filter inFlight pipelineRuns) = 0 then Inr ()
                      else Inr ())))"

text \<open>
  \<open>AzureCI.waitForAllPipelineRunsToFinish\<close> with \<open>retries: 30\<close>. \<open>provider k\<close> is the
  client's view of Azure at attempt \<open>k\<close>.
\<close>

definition waitForAllPipelineRunsToFinish ::
  "string \<Rightarrow> (nat \<Rightarrow> AzureWorld option) \<Rightarrow> nat \<times> (error + unit)" where
  "waitForAllPipelineRunsToFinish name provider =
     retry_from 30 0 (\<lambda>k. waitForAll_callback name (provider k))"

section \<open>Promotion with a pull request\<close>

text \<open>
  The collaborators of \<open>promoteToEnvironmentWithPR\<close> (the Git provider, the CI provider
  and the deployment controller) are interfaces; a world gives the outcome of each of
  their methods for each argument. \<open>expectPipelineSuccess_result p st\<close> is the outcome of
  the helper \<open>expectPipelineSuccess(pipeline, ci)\<close> for the pipeline \<open>p\<close> when the wait
  for \<open>p\<close> has ended with the status \<open>st\<close>, which is what the helper can read through
  its two arguments.
\<close>

record Application =
  app_name :: string

record SyncResult =
  synced :: bool
  sync_message :: string

record PromotionWorld =
  getApplication_result :: "string \<Rightarrow> error + Application option"
  createPromotionPullRequestOnGitopsRepo_result :: "string \<Rightarrow> string \<Rightarrow> error + PullRequest"
  ci_getPipeline_result ::
    "PullRequest \<Rightarrow> PipelineStatus option \<Rightarrow> EventType option \<Rightarrow> error + Pipeline option"
  waitForPipelineToFinish_result :: "Pipeline \<Rightarrow> error + PipelineStatus"
  expectPipelineSuccess_result :: "Pipeline \<Rightarrow> PipelineStatus \<Rightarrow> error + unit"
  mergePullRequest_result :: "PullRequest \<Rightarrow> error + PullRequest"
  syncApplication_result :: "string \<Rightarrow> error + unit"
  waitUntilApplicationIsSynced_result :: "string \<Rightarrow> string \<Rightarrow> error + SyncResult"

text \<open>The calls the workflow makes on its collaborators, with their arguments.\<close>

datatype call =
    GetApplication string
  | CreatePromotionPullRequestOnGitopsRepo string string
  | GetPipeline PullRequest "PipelineStatus option" "EventType option"
  | WaitForPipelineToFinish Pipeline
  | ExpectPipelineSuccess Pipeline
  | MergePullRequest PullRequest
  | SyncApplication string
  | WaitUntilApplicationIsSynced string string

text \<open>\<open>step c k\<close>: the call \<open>c\<close> is made, then the workflow goes on as \<open>k\<close>.\<close>

definition step :: "call \<Rightarrow> call list \<times> (error + unit) \<Rightarrow> call list \<times> (error + unit)" where
  "step c k = (c # fst k, snd k)"

text \<open>
  \<open>promoteToEnvironmentWithPR\<close>: the calls made, in order, and the outcome. The
  \<open>catch\<close> block logs and rethrows. Step 3 is the side of the file that fits its
  imports, \<open>ci.getPipeline(pr, PipelineStatus.RUNNING, EventType.PULL_REQUEST)\<close>. The
  getters that only feed \<open>console.log\<close> are left out. After the merge the function
  goes on to \<open>syncApplication\<close>: it looks up and awaits no second pipeline.
\<close>

definition promoteToEnvironmentWithPR ::
  "PromotionWorld \<Rightarrow> string \<Rightarrow> string \<Rightarrow> call list \<times> (error + unit)" where
  "promoteToEnvironmentWithPR w environment img =
     step (GetApplication environment)
       (case getApplication_result w environment of
          Inl e \<Rightarrow> ([], Inl e)
        | Inr None \<Rightarrow> ([], Inl (AssertionError ''expect(application).not.toBeNull()''))
        | Inr (Some application) \<Rightarrow>
     step (CreatePromotionPullRequestOnGitopsRepo environment img)
       (case createPromotionPullRequestOnGitopsRepo_result w environment img of
          Inl e \<Rightarrow> ([], Inl e)
        | Inr pr \<Rightarrow>
     step (GetPipeline pr (Some RUNNING) (Some EV_PULL_REQUEST))
       (case ci_getPipeline_result w pr (Some RUNNING) (Some EV_PULL_REQUEST) of
          Inl e \<Rightarrow> ([], Inl e)
        | Inr None \<Rightarrow> ([], Inl (Error ''No pipeline was triggered by the promotion PR''))
        | Inr (Some pipeline) \<Rightarrow>
     step (WaitForPipelineToFinish pipeline)
       (case waitForPipelineToFinish_result w pipeline of
          Inl e \<Rightarrow> ([], Inl e)
        | Inr pipelineStatus \<Rightarrow>
     step (ExpectPipelineSuccess pipeline)
       (case expectPipelineSuccess_result w pipeline pipelineStatus of
          Inl e \<Rightarrow> ([], Inl e)
        | Inr u \<Rightarrow>
     step (MergePullRequest pr)
       (case mergePullRequest_result w pr of
          Inl e \<Rightarrow> ([], Inl e)
        | Inr mergedPR \<Rightarrow>
     step (SyncApplication environment)
       (case syncApplication_result w environment of
          Inl e \<Rightarrow> ([], Inl e)
        | Inr u' \<Rightarrow>
     step (WaitUntilApplicationIsSynced environment (pr_sha mergedPR))
       (case waitUntilApplicationIsSynced_result w environment (pr_sha mergedPR) of
          Inl e \<Rightarrow> ([], Inl e)
        | Inr syncResult \<Rightarrow>
            if \<not> synced syncResult
            then ([], Inl (Error (''Failed to sync application: '' @ sync_message syncResult)))
            else ([], Inr ())))))))))"

text \<open>
  Modelled from the spec: \<open>expectPipelineSuccess\<close> of \<open>utils/test/assertionHelpers\<close> is
  not among the sources. The specification conditions the step from
  \<open>AWAIT_PR_PIPELINE\<close> to \<open>MERGE_PR\<close> on the terminal outcome being \<open>SUCCESS\<close> and
  aborts the workflow on any other outcome; so the helper throws unless the awaited
  status is \<open>SUCCESS\<close>.
\<close>

definition expectPipelineSuccess_spec :: "Pipeline \<Rightarrow> PipelineStatus \<Rightarrow> error + unit" where
  "expectPipelineSuccess_spec pipeline st =
     (if st = SUCCESS then Inr () else Inl (AssertionError ''pipeline was not successful''))"

subsection \<open>Stages, as the specification names them\<close>

datatype stage =
    CHECK_TARGET_EXISTS
  | CREATE_PR
  | AWAIT_PR_PIPELINE
  | MERGE_PR
  | AWAIT_PUSH_PIPELINE
  | SYNC_DEPLOYMENT
  | AWAIT_SYNC

text \<open>
  The stage a call opens. Looking up the pipeline of an event opens the stage that
  awaits it; the wait and the success check that follow belong to that stage.
\<close>

fun stage_of_call :: "call \<Rightarrow> stage option" where
  "stage_of_call (GetApplication env) = Some CHECK_TARGET_EXISTS"
| "stage_of_call (CreatePromotionPullRequestOnGitopsRepo env img) = Some CREATE_PR"
| "stage_of_call (GetPipeline pr st (Some EV_PULL_REQUEST)) = Some AWAIT_PR_PIPELINE"
| "stage_of_call (GetPipeline pr st (Some EV_PUSH)) = Some AWAIT_PUSH_PIPELINE"
| "stage_of_call (GetPipeline pr st None) = None"
| "stage_of_call (WaitForPipelineToFinish p) = None"
| "stage_of_call (ExpectPipelineSuccess p) = None"
| "stage_of_call (MergePullRequest pr) = Some MERGE_PR"
| "stage_of_call (SyncApplication env) = Some SYNC_DEPLOYMENT"
| "stage_of_call (WaitUntilApplicationIsSynced env sha) = Some AWAIT_SYNC"

definition stages_of :: "call list \<Rightarrow> stage list" where
  "stages_of calls = List.map_filter stage_of_call calls"

text \<open>The chain of the specification, and the chain without the push pipeline.\<close>

definition spec_stages :: "stage list" where
  "spec_stages =
     [CHECK_TARGET_EXISTS, CREATE_PR, AWAIT_PR_PIPELINE, MERGE_PR, AWAIT_PUSH_PIPELINE,
      SYNC_DEPLOYMENT, AWAIT_SYNC]"

definition code_stages :: "stage list" where
  "code_stages =
     [CHECK_TARGET_EXISTS, CREATE_PR, AWAIT_PR_PIPELINE, MERGE_PR, SYNC_DEPLOYMENT, AWAIT_SYNC]"

text \<open>
  A stage has succeeded in a world when the calls it consists of have returned normally
  with the value the workflow goes on with. The function has no stage
  \<open>AWAIT_PUSH_PIPELINE\<close>.
\<close>

definition stage_succeeded :: "PromotionWorld \<Rightarrow> string \<Rightarrow> string \<Rightarrow> stage \<Rightarrow> bool" where
  "stage_succeeded w environment img s =
     (case s of
        CHECK_TARGET_EXISTS \<Rightarrow>
          (case getApplication_result w environment of Inr (Some a) \<Rightarrow> True | _ \<Rightarrow> False)
      | CREATE_PR \<Rightarrow>
          (case createPromotionPullRequestOnGitopsRepo_result w environment img of
             Inr pr \<Rightarrow> True | _ \<Rightarrow> False)
      | AWAIT_PR_PIPELINE \<Rightarrow>
          (case createPromotionPullRequestOnGitopsRepo_result w environment img of
             Inr pr \<Rightarrow>
               (case ci_getPipeline_result w pr (Some RUNNING) (Some EV_PULL_REQUEST) of
                  Inr (Some p) \<Rightarrow>
                    (case waitForPipelineToFinish_result w p of
                       Inr st \<Rightarrow> expectPipelineSuccess_result w p st = Inr ()
                     | _ \<Rightarrow> False)
                | _ \<Rightarrow> False)
           | _ \<Rightarrow> False)
      | MERGE_PR \<Rightarrow>
          (case createPromotionPullRequestOnGitopsRepo_result w environment img of
             Inr pr \<Rightarrow> (case mergePullRequest_result w pr of Inr m \<Rightarrow> True | _ \<Rightarrow> False)
           | _ \<Rightarrow> False)
      | AWAIT_PUSH_PIPELINE \<Rightarrow> False
      | SYNC_DEPLOYMENT \<Rightarrow> syncApplication_result w environment = Inr ()
      | AWAIT_SYNC \<Rightarrow>
          (case createPromotionPullRequestOnGitopsRepo_result w environment img of
             Inr pr \<Rightarrow>
               (case mergePullRequest_result w pr of
                  Inr m \<Rightarrow>
                    (case waitUntilApplicationIsSynced_result w environment (pr_sha m) of
                       Inr res \<Rightarrow> synced res
                     | _ \<Rightarrow> False)
                | _ \<Rightarrow> False)
           | _ \<Rightarrow> False))"

definition is_merge :: "call \<Rightarrow> bool" where
  "is_merge c = (case c of MergePullRequest pr \<Rightarrow> True | _ \<Rightarrow> False)"

definition is_sync :: "call \<Rightarrow> bool" where
  "is_sync c = (case c of SyncApplication env \<Rightarrow> True | _ \<Rightarrow> False)"

section \<open>Concrete inputs\<close>

text \<open>The inputs at which the theorems below are instantiated.\<close>

definition skipped_run :: AzurePipelineRun where
  "skipped_run = \<lparr> run_id = 7, run_name = ''20240101.1'', run_state = ''completed'',
     run_result = Some ''skipped'', run_createdDate = ''2024-01-01T00:00:00Z'',
     run_finishedDate = Some ''2024-01-01T00:05:00Z'', run_web_href = None,
     run_triggerInfo = None, run_sourceVersion = None, run_reason = None \<rparr>"

definition idle_build :: JenkinsBuild where
  "idle_build = \<lparr> b_number = 12, b_url = ''http://jenkins/job/app/12/'',
     b_displayName = Some ''#12'', b_building = False, b_result = None,
     b_actions = None, b_causes = None, b_description = None \<rparr>"

text \<open>
  An Azure run without a reason whose trigger dictionary has a pull-request id and a CI
  source SHA; Jenkins causes and builds that carry a pull-request and a push signal in
  different places.
\<close>

definition both_signals_run :: AzurePipelineRun where
  "both_signals_run = \<lparr> run_id = 31, run_name = ''20240102.4'', run_state = ''inProgress'',
     run_result = None, run_createdDate = ''2024-01-02T10:00:00Z'',
     run_finishedDate = None, run_web_href = None,
     run_triggerInfo = Some [''pr.pullRequestId'' \<mapsto> ''42'', ''ci.sourceSha'' \<mapsto> ''abc123''],
     run_sourceVersion = None, run_reason = None \<rparr>"

definition push_cause :: JenkinsCause where
  "push_cause = \<lparr> cause_shortDescription = Some ''Started by GitHub push by alice'',
                   cause_class = Some ''com.cloudbees.jenkins.GitHubPushCause'' \<rparr>"

definition pr_cause :: JenkinsCause where
  "pr_cause = \<lparr> cause_shortDescription = Some ''GitHub pull request #5 opened'',
                 cause_class = Some ''org.jenkinsci.plugins.ghprb.GhprbCause'' \<rparr>"

definition push_then_pr_build :: JenkinsBuild where
  "push_then_pr_build = \<lparr> b_number = 21, b_url = ''http://jenkins/job/app/21/'',
     b_displayName = Some ''#21'', b_building = False, b_result = Some ''SUCCESS'',
     b_actions = None, b_causes = Some [push_cause, pr_cause], b_description = None \<rparr>"

definition pr_then_push_build :: JenkinsBuild where
  "pr_then_push_build = \<lparr> b_number = 22, b_url = ''http://jenkins/job/app/22/'',
     b_displayName = Some ''#22'', b_building = False, b_result = Some ''SUCCESS'',
     b_actions = None, b_causes = Some [pr_cause, push_cause], b_description = None \<rparr>"

definition git_pr_action :: JenkinsAction where
  "git_pr_action = \<lparr> act_class = Some ''hudson.plugins.git.util.BuildData'',
     act_lastBuiltRevision = Some \<lparr> rev_SHA1 = Some ''abc123def456'' \<rparr>,
     act_buildsByBranchName = None, act_parameters = None,
     act_pullRequest = Some \<lparr> pri_source_commit = Some ''abc123def456'' \<rparr> \<rparr>"

definition pr_action_build :: JenkinsBuild where
  "pr_action_build = \<lparr> b_number = 23, b_url = ''http://jenkins/job/app/23/'',
     b_displayName = Some ''#23'', b_building = False, b_result = Some ''SUCCESS'',
     b_actions = Some [git_pr_action], b_causes = Some [push_cause], b_description = None \<rparr>"

definition both_in_one_cause :: JenkinsCause where
  "both_in_one_cause = \<lparr> cause_shortDescription = Some ''Pull request #5 updated by push'',
                          cause_class = None \<rparr>"

definition indexing_cause :: JenkinsCause where
  "indexing_cause = \<lparr> cause_shortDescription = Some ''Branch indexing'',
                       cause_class = Some ''jenkins.branch.BranchIndexingCause'' \<rparr>"

definition one_cause_build :: JenkinsBuild where
  "one_cause_build = \<lparr> b_number = 24, b_url = ''http://jenkins/job/app/24/'',
     b_displayName = Some ''#24'', b_building = False, b_result = Some ''SUCCESS'',
     b_actions = None, b_causes = Some [indexing_cause, both_in_one_cause, push_cause],
     b_description = None \<rparr>"

text \<open>
  An Azure project with one pipeline definition and two runs in flight, the newer one
  started by a push and the older one by a pull request; a pull request with a head; a
  provider whose requests fail, one whose run listing fails and one without runs.
\<close>

definition app_def :: AzurePipelineDefinition where
  "app_def = \<lparr> def_id = 5, def_name = ''app'', def_repository_name = Some ''org/app'' \<rparr>"

definition ci_run :: AzurePipelineRun where
  "ci_run = \<lparr> run_id = 101, run_name = ''20240103.2'', run_state = ''inProgress'',
     run_result = None, run_createdDate = ''2024-01-03T09:00:00Z'',
     run_finishedDate = None, run_web_href = Some ''https://dev.azure.com/org/app/_build/results?buildId=101'',
     run_triggerInfo = None, run_sourceVersion = Some ''deadbeef'',
     run_reason = Some ''individualCI'' \<rparr>"

definition pr_run :: AzurePipelineRun where
  "pr_run = \<lparr> run_id = 102, run_name = ''20240103.1'', run_state = ''inProgress'',
     run_result = None, run_createdDate = ''2024-01-03T08:00:00Z'',
     run_finishedDate = None, run_web_href = Some ''https://dev.azure.com/org/app/_build/results?buildId=102'',
     run_triggerInfo = None, run_sourceVersion = Some ''deadbeef'',
     run_reason = Some ''pullRequest'' \<rparr>"

definition two_runs_world :: AzureWorld where
  "two_runs_world = \<lparr> pipelines_response = Inr [app_def],
                        runs_response = (\<lambda>i. Inr [ci_run, pr_run]) \<rparr>"

definition azure_ci :: AzureCI where
  "azure_ci = \<lparr> componentName = ''app'', azureClient = Some two_runs_world \<rparr>"

definition promotion_pr :: PullRequest where
  "promotion_pr = \<lparr> pr_pullNumber = 42, pr_sha = ''deadbeef'',
     pr_head = Some \<lparr> head_sha = Some ''deadbeef'', head_ref = Some ''promote-dev'' \<rparr> \<rparr>"

definition faulty_world :: AzureWorld where
  "faulty_world = \<lparr> pipelines_response = Inl (TransportError ''ECONNRESET''),
                      runs_response = (\<lambda>i. Inl (TransportError ''ECONNRESET'')) \<rparr>"

definition no_runs_world :: AzureWorld where
  "no_runs_world = \<lparr> pipelines_response = Inr [app_def], runs_response = (\<lambda>i. Inr []) \<rparr>"

definition runs_fault_world :: AzureWorld where
  "runs_fault_world = \<lparr> pipelines_response = Inr [app_def],
                          runs_response = (\<lambda>i. Inl (TransportError ''HTTP 503'')) \<rparr>"

text \<open>
  A finished Jenkins build with the given number whose git action was built at the given
  SHA; a job with one build; a job whose three builds, numbered 3, 7 and 5 in scan
  order, were all built at the same commit.
\<close>

definition sha_build :: "int \<Rightarrow> string \<Rightarrow> JenkinsBuild" where
  "sha_build n sha = \<lparr> b_number = n, b_url = ''http://jenkins/job/app/'',
     b_displayName = Some ''app'', b_building = False, b_result = Some ''SUCCESS'',
     b_actions = Some [\<lparr> act_class = Some ''hudson.plugins.git.util.BuildData'',
                          act_lastBuiltRevision = Some \<lparr> rev_SHA1 = Some sha \<rparr>,
                          act_buildsByBranchName = None, act_parameters = None,
                          act_pullRequest = None \<rparr>],
     b_causes = None, b_description = None \<rparr>"


definition three_matches_world :: JenkinsWorld where
  "three_matches_world =
     \<lparr> job_response = Inr \<lparr> job_builds = Some [\<lparr> ref_number = 3 \<rparr>, \<lparr> ref_number = 7 \<rparr>,
                                                 \<lparr> ref_number = 5 \<rparr>] \<rparr>,
       build_response = (\<lambda>n. Inr (sha_build n ''abc123def456'')) \<rparr>"

text \<open>
  A Jenkins build that is still running, and a fetch sequence that returns it at every
  poll without delay.
\<close>

definition running_build :: JenkinsBuild where
  "running_build = \<lparr> b_number = 12, b_url = ''http://jenkins/job/app/12/'',
     b_displayName = Some ''#12'', b_building = True, b_result = None,
     b_actions = None, b_causes = None, b_description = None \<rparr>"

definition never_finishing :: "nat \<Rightarrow> nat \<times> (error + JenkinsBuild)" where
  "never_finishing k = (0, Inr running_build)"

text \<open>
  A promotion in which every collaborator succeeds: the application exists, the pull
  request 42 is created at \<open>deadbeef\<close> and merged at \<open>cafef00d\<close>, the sync is
  reported. The wait for the pull-request pipeline ends with the given status.
\<close>

definition merged_pr :: PullRequest where
  "merged_pr = \<lparr> pr_pullNumber = 42, pr_sha = ''cafef00d'', pr_head = None \<rparr>"

definition pr_pipeline :: Pipeline where
  "pr_pipeline = \<lparr> p_id = (5, 102), p_ciType = AZURE, p_repositoryName = ''org/app-gitops'', p_status = RUNNING,
     p_name = Some ''20240103.1'', p_url = None, p_startTime = None, p_endTime = None,
     p_sha = Some ''deadbeef'' \<rparr>"

definition promotion_world :: "PipelineStatus \<Rightarrow> PromotionWorld" where
  "promotion_world st =
     \<lparr> getApplication_result = (\<lambda>env. Inr (Some \<lparr> app_name = ''app-'' @ env \<rparr>)),
       createPromotionPullRequestOnGitopsRepo_result = (\<lambda>env img. Inr promotion_pr),
       ci_getPipeline_result = (\<lambda>pr s ev. Inr (Some pr_pipeline)),
       waitForPipelineToFinish_result = (\<lambda>p. Inr st),
       expectPipelineSuccess_result = expectPipelineSuccess_spec,
       mergePullRequest_result = (\<lambda>pr. Inr merged_pr),
       syncApplication_result = (\<lambda>env. Inr ()),
       waitUntilApplicationIsSynced_result =
         (\<lambda>env sha. Inr \<lparr> synced = True, sync_message = ''Synced to '' @ sha \<rparr>) \<rparr>"

section \<open>Status normalisation\<close>

text \<open>The two status mappings of the code are the table lookups with \<open>UNKNOWN\<close> as the default.\<close>

lemma azure_lookup_agrees:
  "mapAzureStatusToPipelineStatus (Some r) =
     or_UNKNOWN (azure_table_lookup (run_state r) (run_result r))"
  by (cases "run_result r")
     (simp_all add: mapAzureStatusToPipelineStatus_def or_UNKNOWN_def azure_table_lookup_def
       azure_state_table_def azure_result_table_def AzurePipelineRunStatus_IN_PROGRESS_def
       AzurePipelineRunStatus_NOT_STARTED_def AzurePipelineRunStatus_POSTPONED_def
       AzurePipelineRunStatus_CANCELLING_def AzurePipelineRunStatus_COMPLETED_def
       AzurePipelineRunResult_SUCCEEDED_def AzurePipelineRunResult_PARTIALLY_SUCCEEDED_def
       AzurePipelineRunResult_FAILED_def AzurePipelineRunResult_CANCELED_def)

lemma jenkins_lookup_agrees:
  "jenkinsBuildStatus b = or_UNKNOWN (jenkins_table_lookup (b_building b) (b_result b))"
  by (cases "b_result b")
     (simp_all add: jenkinsBuildStatus_def or_UNKNOWN_def jenkins_table_lookup_def
       jenkins_result_table_def truthy_def)

text \<open>
  C8. The per-provider status normalisation is total. For every Azure run (every state
  string and every result, present or not) and for every Jenkins build the mapping
  returns a canonical status, namely the entry of the provider's table, and
  \<open>UNKNOWN\<close> for every pair the table lacks: a missing run, a completed run with the
  result \<open>skipped\<close>, the state \<open>unknown\<close>, a finished build with no recognised
  result. \<open>convertBuildToPipeline\<close> hands that status to the pipeline it creates.
\<close>

theorem status_normalization_total:
  "mapAzureStatusToPipelineStatus None = UNKNOWN
   \<and> mapAzureStatusToPipelineStatus (Some r) =
       or_UNKNOWN (azure_table_lookup (run_state r) (run_result r))
   \<and> (azure_table_lookup (run_state r) (run_result r) = None
        \<longrightarrow> mapAzureStatusToPipelineStatus (Some r) = UNKNOWN)
   \<and> (run_state r = ''completed'' \<and> run_result r = Some ''skipped''
        \<longrightarrow> mapAzureStatusToPipelineStatus (Some r) = UNKNOWN)
   \<and> (run_state r = ''unknown'' \<longrightarrow> mapAzureStatusToPipelineStatus (Some r) = UNKNOWN)
   \<and> jenkinsBuildStatus b = or_UNKNOWN (jenkins_table_lookup (b_building b) (b_result b))
   \<and> (jenkins_table_lookup (b_building b) (b_result b) = None
        \<longrightarrow> jenkinsBuildStatus b = UNKNOWN)
   \<and> jp_status (convertBuildToPipeline b jobName repositoryName logs sha) = jenkinsBuildStatus b"
proof -
  have a: "mapAzureStatusToPipelineStatus None = UNKNOWN"
    by (simp add: mapAzureStatusToPipelineStatus_def)
  have c: "jp_status (convertBuildToPipeline b jobName repositoryName logs sha) = jenkinsBuildStatus b"
    by (simp add: convertBuildToPipeline_def)
  have d: "run_state r = ''completed'' \<and> run_result r = Some ''skipped''
        \<longrightarrow> azure_table_lookup (run_state r) (run_result r) = None"
    by (simp add: azure_table_lookup_def azure_state_table_def azure_result_table_def)
  have e: "run_state r = ''unknown'' \<longrightarrow> azure_table_lookup (run_state r) (run_result r) = None"
    by (simp add: azure_table_lookup_def azure_state_table_def azure_result_table_def)
  show ?thesis
    using a c d e azure_lookup_agrees [of r] jenkins_lookup_agrees [of b]
    by (simp add: or_UNKNOWN_def)
qed

text \<open>
  The theorem at a completed Azure run with the result \<open>skipped\<close> and at a finished
  Jenkins build without a result: both are outside the tables and both map to
  \<open>UNKNOWN\<close>.
\<close>

theorem status_normalization_total_witness:
  "azure_table_lookup (run_state skipped_run) (run_result skipped_run) = None
   \<and> mapAzureStatusToPipelineStatus (Some skipped_run) = UNKNOWN
   \<and> jenkins_table_lookup (b_building idle_build) (b_result idle_build) = None
   \<and> jenkinsBuildStatus idle_build = UNKNOWN"
proof -
  have 1: "azure_table_lookup (run_state skipped_run) (run_result skipped_run) = None"
    by (simp add: skipped_run_def azure_table_lookup_def azure_state_table_def azure_result_table_def)
  have 2: "jenkins_table_lookup (b_building idle_build) (b_result idle_build) = None"
    by (simp add: idle_build_def jenkins_table_lookup_def)
  show ?thesis
    using 1 2 status_normalization_total [of skipped_run idle_build "''app''" "''repo''" "''''" None]
    by (simp add: or_UNKNOWN_def)
qed

section \<open>Trigger classification\<close>

text \<open>
  The loop over the causes returns \<open>PULL_REQUEST\<close> at the first cause that passes the
  pull-request test, when no cause before it passes one of the four other tests.
\<close>

lemma classifyCauses_first_pull_request:
  "causeIsPullRequest c \<Longrightarrow>
   list_all (\<lambda>c'. \<not> causeIsPush c' \<and> \<not> causeIsManual c' \<and> \<not> causeIsScheduled c'
                    \<and> \<not> causeIsApi c') pre \<Longrightarrow>
   classifyCauses (pre @ c # post) = Some JT_PULL_REQUEST"
  by (induction pre) simp_all

text \<open>
  C5, as the code has it. For an Azure run whose reason is not a member of the enum,
  a pull-request id or a \<open>Build.Reason\<close> of \<open>PullRequest\<close> in the trigger dictionary
  gives \<open>pullRequest\<close>, whatever push signals the dictionary also holds. For a Jenkins
  build, \<open>PULL_REQUEST\<close> is returned when an action passes the pull-request test, and
  when a cause passes it and no earlier cause passes the push, manual, timer or remote
  test; the cause itself and all later causes and actions may carry push signals.
\<close>

theorem pull_request_precedence:
  "(\<not> (truthy (run_reason run) \<and> the (run_reason run) \<in> set AzurePipelineTriggerReason_values)
      \<and> run_triggerInfo run = Some ti
      \<and> (truthy (ti ''pr.pullRequestId'') \<or> ti ''Build.Reason'' = Some ''PullRequest'')
    \<longrightarrow> determineTriggerEvent run = AzurePipelineTriggerReason_PULL_REQUEST)
   \<and> (b_actions build = Some as \<and> list_ex isPullRequestAction as
    \<longrightarrow> determineBuildTrigger build = JT_PULL_REQUEST)
   \<and> (b_causes build = Some (pre @ c # post) \<and> causeIsPullRequest c
      \<and> list_all (\<lambda>c'. \<not> causeIsPush c' \<and> \<not> causeIsManual c' \<and> \<not> causeIsScheduled c'
                       \<and> \<not> causeIsApi c') pre
    \<longrightarrow> determineBuildTrigger build = JT_PULL_REQUEST)"
proof (intro conjI impI)
  assume "\<not> (truthy (run_reason run) \<and> the (run_reason run) \<in> set AzurePipelineTriggerReason_values)
      \<and> run_triggerInfo run = Some ti
      \<and> (truthy (ti ''pr.pullRequestId'') \<or> ti ''Build.Reason'' = Some ''PullRequest'')"
  then show "determineTriggerEvent run = AzurePipelineTriggerReason_PULL_REQUEST"
    by (auto simp add: determineTriggerEvent_def)
next
  assume "b_actions build = Some as \<and> list_ex isPullRequestAction as"
  then show "determineBuildTrigger build = JT_PULL_REQUEST"
    by (simp add: determineBuildTrigger_def)
next
  assume h: "b_causes build = Some (pre @ c # post) \<and> causeIsPullRequest c
      \<and> list_all (\<lambda>c'. \<not> causeIsPush c' \<and> \<not> causeIsManual c' \<and> \<not> causeIsScheduled c'
                       \<and> \<not> causeIsApi c') pre"
  then have "classifyCauses (pre @ c # post) = Some JT_PULL_REQUEST"
    using classifyCauses_first_pull_request by blast
  with h show "determineBuildTrigger build = JT_PULL_REQUEST"
    by (simp add: determineBuildTrigger_def)
qed

text \<open>
  The theorem at an Azure run with both a pull-request id and a CI source SHA, at a
  Jenkins build whose action is both a git and a pull-request action, and at a build
  whose causes are a branch indexing, then a cause that passes both the pull-request
  and the push test, then a push cause.
\<close>

theorem pull_request_precedence_witness:
  "determineTriggerEvent both_signals_run = ''pullRequest''
   \<and> truthy (the (run_triggerInfo both_signals_run) ''ci.sourceSha'')
   \<and> determineBuildTrigger pr_action_build = JT_PULL_REQUEST
   \<and> jenkinsPushSignal pr_action_build
   \<and> determineBuildTrigger one_cause_build = JT_PULL_REQUEST
   \<and> jenkinsPushSignal one_cause_build"
proof -
  have a1: "\<not> (truthy (run_reason both_signals_run)
               \<and> the (run_reason both_signals_run) \<in> set AzurePipelineTriggerReason_values)"
    by (simp add: both_signals_run_def truthy_def)
  have a2: "run_triggerInfo both_signals_run
              = Some [''pr.pullRequestId'' \<mapsto> ''42'', ''ci.sourceSha'' \<mapsto> ''abc123'']"
    by (simp add: both_signals_run_def)
  have a3: "truthy ([''pr.pullRequestId'' \<mapsto> ''42'', ''ci.sourceSha'' \<mapsto> ''abc123''] ''pr.pullRequestId'')"
    by (simp add: truthy_def)
  have a4: "truthy (the (run_triggerInfo both_signals_run) ''ci.sourceSha'')"
    by (simp add: both_signals_run_def truthy_def)
  have b1: "b_actions pr_action_build = Some [git_pr_action]"
    by (simp add: pr_action_build_def)
  have b2: "list_ex isPullRequestAction [git_pr_action]"
    by code_simp
  have b3: "jenkinsPushSignal pr_action_build"
    by code_simp
  have c1: "b_causes one_cause_build = Some ([indexing_cause] @ both_in_one_cause # [push_cause])"
    by (simp add: one_cause_build_def)
  have c0: "list_all (\<lambda>c'. \<not> causeIsPush c' \<and> \<not> causeIsManual c' \<and> \<not> causeIsScheduled c'
                           \<and> \<not> causeIsApi c') [indexing_cause]"
    by code_simp
  have c2: "causeIsPullRequest both_in_one_cause"
    by code_simp
  have c3: "jenkinsPushSignal one_cause_build"
    by code_simp
  show ?thesis
    using a1 a2 a3 a4 b1 b2 b3 c0 c1 c2 c3
      pull_request_precedence [of both_signals_run
        "[''pr.pullRequestId'' \<mapsto> ''42'', ''ci.sourceSha'' \<mapsto> ''abc123'']"
        pr_action_build "[git_pr_action]" "[indexing_cause]" both_in_one_cause "[push_cause]"]
      pull_request_precedence [of both_signals_run
        "[''pr.pullRequestId'' \<mapsto> ''42'', ''ci.sourceSha'' \<mapsto> ''abc123'']"
        one_cause_build "[git_pr_action]" "[indexing_cause]" both_in_one_cause "[push_cause]"]
    by (simp add: AzurePipelineTriggerReason_PULL_REQUEST_def)
qed

text \<open>
  C5 as stated fails for Jenkins: a build whose first cause is a push cause and whose
  second cause is a pull-request cause carries both signals and is classified \<open>PUSH\<close>,
  because the first cause that passes any test decides.
\<close>

theorem pull_request_precedence_counterexample:
  "jenkinsPullRequestSignal push_then_pr_build
   \<and> jenkinsPushSignal push_then_pr_build
   \<and> determineBuildTrigger push_then_pr_build = JT_PUSH
   \<and> determineBuildTrigger push_then_pr_build \<noteq> JT_PULL_REQUEST"
  by code_simp

section \<open>The Azure facade\<close>

text \<open>
  C3 at a failing input. The run listing returns a push run (number 101) before a
  pull-request run (number 102) and \<open>getPipeline\<close> is asked for the \<open>PULL_REQUEST\<close>
  event. The filter keeps only run 102, but its result is dropped and the pipeline is
  built from \<open>runs[0]\<close>, the push run 101.
\<close>

theorem getPipeline_ignores_eventType:
  "map_option p_id (projr (getPipeline azure_ci promotion_pr None (Some EV_PULL_REQUEST)))
     = Some (5, 101)
   \<and> getPipeline azure_ci promotion_pr None (Some EV_PULL_REQUEST)
     = Inr (Some (convertAzureRunToPipeline azure_ci ci_run app_def))
   \<and> run_reason ci_run = Some ''individualCI''
   \<and> map run_id (eventTypeFilter (Some EV_PULL_REQUEST) [ci_run, pr_run]) = [102]"
  by (simp add: getPipeline_def getPipeline_try_def azure_ci_def promotion_pr_def
      two_runs_world_def getPipelineDefinition_def app_def_def listPipelineRuns_def
      truthy_def eventTypeFilter_def ci_run_def pr_run_def convertAzureRunToPipeline_def
      AzurePipelineTriggerReason_PULL_REQUEST_def)

text \<open>
  C9. \<open>AzureCI.getPipeline\<close> never rejects: for every facade, pull request, expected
  status and event type it resolves. A missing client, a failed listing of the
  definitions and a failed listing of the runs all resolve to \<open>null\<close>, which is also
  what a provider without runs resolves to.
\<close>

theorem getPipeline_never_rejects:
  "(\<exists>r. getPipeline ci pullRequest pipelineStatus eventType = Inr r)
   \<and> (azureClient ci = None
        \<longrightarrow> getPipeline ci pullRequest pipelineStatus eventType = Inr None)
   \<and> (azureClient ci = Some w \<and> pipelines_response w = Inl e
        \<longrightarrow> getPipeline ci pullRequest pipelineStatus eventType = Inr None)
   \<and> (azureClient ci = Some w \<and> (\<forall>i. runs_response w i = Inl e)
        \<longrightarrow> getPipeline ci pullRequest pipelineStatus eventType = Inr None)
   \<and> (azureClient ci = Some w \<and> (\<forall>i. runs_response w i = Inr [])
        \<longrightarrow> getPipeline ci pullRequest pipelineStatus eventType = Inr None)"
proof (intro conjI impI)
  show "\<exists>r. getPipeline ci pullRequest pipelineStatus eventType = Inr r"
    by (simp add: getPipeline_def split: sum.split)
next
  assume "azureClient ci = None"
  then show "getPipeline ci pullRequest pipelineStatus eventType = Inr None"
    by (simp add: getPipeline_def getPipeline_try_def)
next
  assume "azureClient ci = Some w \<and> pipelines_response w = Inl e"
  then show "getPipeline ci pullRequest pipelineStatus eventType = Inr None"
    by (simp add: getPipeline_def getPipeline_try_def getPipelineDefinition_def)
next
  assume "azureClient ci = Some w \<and> (\<forall>i. runs_response w i = Inl e)"
  then show "getPipeline ci pullRequest pipelineStatus eventType = Inr None"
    by (simp add: getPipeline_def getPipeline_try_def getPipelineDefinition_def
        listPipelineRuns_def getLatestPipelineRun_def split: sum.split option.split)
next
  assume "azureClient ci = Some w \<and> (\<forall>i. runs_response w i = Inr [])"
  then show "getPipeline ci pullRequest pipelineStatus eventType = Inr None"
    by (simp add: getPipeline_def getPipeline_try_def getPipelineDefinition_def
        listPipelineRuns_def getLatestPipelineRun_def split: sum.split option.split)
qed

text \<open>
  The theorem at a facade without a client, at a provider whose requests fail, at one
  whose run listing fails and at one that has no runs: four times \<open>null\<close>.
\<close>

theorem getPipeline_never_rejects_witness:
  "getPipeline \<lparr> componentName = ''app'', azureClient = None \<rparr> promotion_pr (Some RUNNING)
       (Some EV_PULL_REQUEST) = Inr None
   \<and> getPipeline \<lparr> componentName = ''app'', azureClient = Some faulty_world \<rparr> promotion_pr
       (Some RUNNING) (Some EV_PULL_REQUEST) = Inr None
   \<and> getPipeline \<lparr> componentName = ''app'', azureClient = Some runs_fault_world \<rparr> promotion_pr
       (Some RUNNING) (Some EV_PULL_REQUEST) = Inr None
   \<and> getPipeline \<lparr> componentName = ''app'', azureClient = Some no_runs_world \<rparr> promotion_pr
       (Some RUNNING) (Some EV_PULL_REQUEST) = Inr None"
proof -
  have 1: "pipelines_response faulty_world = Inl (TransportError ''ECONNRESET'')"
    by (simp add: faulty_world_def)
  have 2: "\<forall>i. runs_response runs_fault_world i = Inl (TransportError ''HTTP 503'')"
    by (simp add: runs_fault_world_def)
  have 3: "\<forall>i. runs_response no_runs_world i = Inr []"
    by (simp add: no_runs_world_def)
  show ?thesis
    using 1 2 3
      getPipeline_never_rejects [of "\<lparr> componentName = ''app'', azureClient = None \<rparr>"
        promotion_pr "Some RUNNING" "Some EV_PULL_REQUEST" faulty_world "TransportError ''ECONNRESET''"]
      getPipeline_never_rejects [of "\<lparr> componentName = ''app'', azureClient = Some faulty_world \<rparr>"
        promotion_pr "Some RUNNING" "Some EV_PULL_REQUEST" faulty_world "TransportError ''ECONNRESET''"]
      getPipeline_never_rejects [of "\<lparr> componentName = ''app'', azureClient = Some runs_fault_world \<rparr>"
        promotion_pr "Some RUNNING" "Some EV_PULL_REQUEST" runs_fault_world "TransportError ''HTTP 503''"]
      getPipeline_never_rejects [of "\<lparr> componentName = ''app'', azureClient = Some no_runs_world \<rparr>"
        promotion_pr "Some RUNNING" "Some EV_PULL_REQUEST" no_runs_world "TransportError ''HTTP 503''"]
    by simp
qed

section \<open>Waiting for all runs\<close>

text \<open>The retry makes at least one attempt, and stops at the first that resolves.\<close>

lemma retry_from_attempts: "k < fst (retry_from n k fn)"
  by (induction n arbitrary: k) (auto split: sum.split intro: Suc_lessD)

lemma retry_from_first_ok: "fn k = Inr v \<Longrightarrow> retry_from n k fn = (Suc k, Inr v)"
  by (cases n) simp_all

text \<open>
  C10. When the first attempt finds the pipeline and its run listing succeeds,
  \<open>waitForAllPipelineRunsToFinish\<close> resolves after that one attempt, whatever the runs
  are, in flight or not. A second attempt is made exactly when the first one throws.
\<close>

theorem waitForAll_single_attempt:
  "(provider 0 = Some w \<and> pipelines_response w = Inr defs
      \<and> find (\<lambda>p. def_name p = name) defs = Some d \<and> def_id d \<noteq> 0
      \<and> runs_response w (def_id d) = Inr runs
    \<longrightarrow> waitForAllPipelineRunsToFinish name provider = (1, Inr ()))
   \<and> (1 < fst (waitForAllPipelineRunsToFinish name provider)
        \<longleftrightarrow> (\<exists>e. waitForAll_callback name (provider 0) = Inl e))"
proof (intro conjI impI)
  assume h: "provider 0 = Some w \<and> pipelines_response w = Inr defs
      \<and> find (\<lambda>p. def_name p = name) defs = Some d \<and> def_id d \<noteq> 0
      \<and> runs_response w (def_id d) = Inr runs"
  then have "waitForAll_callback name (provider 0) = Inr ()"
    by (simp add: waitForAll_callback_def getPipelineIdByName_def listPipelineRuns_def)
  then show "waitForAllPipelineRunsToFinish name provider = (1, Inr ())"
    by (simp add: waitForAllPipelineRunsToFinish_def retry_from_first_ok)
next
  show "1 < fst (waitForAllPipelineRunsToFinish name provider)
        \<longleftrightarrow> (\<exists>e. waitForAll_callback name (provider 0) = Inl e)"
  proof (cases "waitForAll_callback name (provider 0)")
    case (Inl e)
    have "retry_from 30 0 (\<lambda>k. waitForAll_callback name (provider k))
            = retry_from 29 1 (\<lambda>k. waitForAll_callback name (provider k))"
      using Inl by (simp add: numeral_eq_Suc)
    then show ?thesis
      using Inl retry_from_attempts [of 1 29 "\<lambda>k. waitForAll_callback name (provider k)"]
      by (simp add: waitForAllPipelineRunsToFinish_def)
  next
    case (Inr u)
    then show ?thesis
      by (simp add: waitForAllPipelineRunsToFinish_def
          retry_from_first_ok [of "\<lambda>k. waitForAll_callback name (provider k)" 0 u 30])
  qed
qed

text \<open>
  The theorem at a provider whose two runs are both in flight: one attempt, resolved.
\<close>

theorem waitForAll_single_attempt_witness:
  "filter inFlight [ci_run, pr_run] = [ci_run, pr_run]
   \<and> waitForAllPipelineRunsToFinish ''app'' (\<lambda>k. Some two_runs_world) = (1, Inr ())"
proof -
  have 1: "pipelines_response two_runs_world = Inr [app_def]"
    by (simp add: two_runs_world_def)
  have 2: "find (\<lambda>p. def_name p = ''app'') [app_def] = Some app_def"
    by (simp add: app_def_def)
  have 3: "def_id app_def \<noteq> 0"
    by (simp add: app_def_def)
  have 4: "runs_response two_runs_world (def_id app_def) = Inr [ci_run, pr_run]"
    by (simp add: two_runs_world_def)
  have 5: "filter inFlight [ci_run, pr_run] = [ci_run, pr_run]"
    by (simp add: inFlight_def mapAzureStatusToPipelineStatus_def ci_run_def pr_run_def
        AzurePipelineRunStatus_IN_PROGRESS_def)
  show ?thesis
    using 1 2 3 4 5
      waitForAll_single_attempt [of "\<lambda>k. Some two_runs_world" two_runs_world "[app_def]"
        "''app''" app_def "[ci_run, pr_run]"]
    by simp
qed

section \<open>Commit locator\<close>












text \<open>
  When every fetch in the window succeeds, the collected list is the fetched builds
  that match, in scan order; the head of the sorted list is a member with the highest
  number.
\<close>

lemma collectMatching_filter:
  "map (\<lambda>r. build_response w (ref_number r)) refs = map Inr fetched \<Longrightarrow>
   collectMatching w n refs = Inr (filter (\<lambda>b. buildMatches b n) fetched)"
proof (induction refs arbitrary: fetched)
  case Nil
  then show ?case by simp
next
  case (Cons r refs)
  then obtain b bs where f: "fetched = b # bs" by (cases fetched) auto
  with Cons.prems have 1: "build_response w (ref_number r) = Inr b"
    and 2: "map (\<lambda>r. build_response w (ref_number r)) refs = map Inr bs" by auto
  show ?case using Cons.IH [OF 2] 1 f by simp
qed

lemma hd_sortByNumberDesc:
  assumes "ms \<noteq> []"
  shows "hd (sortByNumberDesc ms) \<in> set ms
         \<and> (\<forall>b \<in> set ms. b_number b \<le> b_number (hd (sortByNumberDesc ms)))"
proof -
  let ?ys = "sort_key (\<lambda>b. - b_number b) ms"
  have ne: "?ys \<noteq> []"
  proof
    assume "?ys = []"
    then have "set ?ys = {}" by simp
    then show False using assms by simp
  qed
  then obtain y ys where ys: "?ys = y # ys" by (cases ?ys) auto
  have "sorted (map (\<lambda>b. - b_number b) ?ys)" by (rule sorted_sort_key)
  with ys have le: "\<forall>z \<in> set ys. - b_number y \<le> - b_number z" by simp
  have s: "set ms = set (y # ys)" using ys set_sort [of "\<lambda>b. - b_number b" ms] by simp
  show ?thesis
    using le s ys by (auto simp: sortByNumberDesc_def)
qed






text \<open>
  C7. Let the job listing and every fetch in the window succeed. The window is the
  first \<open>maxBuildsToCheck\<close> builds of the listing. The locator collects the builds of
  the window that match, sorts them by build number, descending, and returns the head
  of the sorted list, which is a collected build whose number no collected build
  exceeds; without a match it returns \<open>null\<close>.
\<close>

theorem locator_returns_highest_number:
  fixes t :: string
  assumes "job_response w = Inr jobInfo"
    and "job_builds jobInfo = Some builds"
    and "map (\<lambda>r. build_response w (ref_number r)) (slice0 builds m) = map Inr fetched"
  defines "ms \<equiv> filter (\<lambda>b. buildMatches b (toLowerCase (trim t))) fetched"
  shows "(0 \<le> m \<longrightarrow> slice0 builds m = take (nat m) builds \<and> length fetched \<le> nat m)
         \<and> (ms = [] \<longrightarrow> getBuildByCommitSha w t m = Inr None)
         \<and> (ms \<noteq> [] \<longrightarrow>
              getBuildByCommitSha w t m = Inr (Some (hd (sortByNumberDesc ms)))
              \<and> sorted (map (\<lambda>b. - b_number b) (sortByNumberDesc ms))
              \<and> hd (sortByNumberDesc ms) \<in> set ms
              \<and> (\<forall>b \<in> set ms. b_number b \<le> b_number (hd (sortByNumberDesc ms))))"
proof -
  have cm: "collectMatching w (toLowerCase (trim t)) (slice0 builds m) = Inr ms"
    unfolding ms_def using assms(3) by (rule collectMatching_filter)
  have len: "length fetched = length (slice0 builds m)"
    using assms(3) by (metis length_map)
  have a: "0 \<le> m \<longrightarrow> slice0 builds m = take (nat m) builds \<and> length fetched \<le> nat m"
    using len by (simp add: slice0_def)
  have e: "builds = [] \<Longrightarrow> ms = []"
    using len by (auto simp add: ms_def slice0_def split: if_splits)
  have b: "ms = [] \<longrightarrow> getBuildByCommitSha w t m = Inr None"
    using assms(1,2) cm by (simp add: getBuildByCommitSha_def)
  have c: "ms \<noteq> [] \<longrightarrow> getBuildByCommitSha w t m = Inr (Some (hd (sortByNumberDesc ms)))"
    using assms(1,2) cm e by (auto simp add: getBuildByCommitSha_def)
  have d: "sorted (map (\<lambda>b. - b_number b) (sortByNumberDesc ms))"
    unfolding sortByNumberDesc_def by (rule sorted_sort_key)
  show ?thesis
    using a b c d hd_sortByNumberDesc [of ms] by blast
qed

text \<open>
  The theorem at a job whose builds 3, 7 and 5 all match: build 7 is returned.
\<close>

theorem locator_returns_highest_number_witness:
  "getBuildByCommitSha three_matches_world ''abc123'' 50
     = Inr (Some (sha_build 7 ''abc123def456''))
   \<and> b_number (sha_build 7 ''abc123def456'') = 7"
proof -
  let ?fetched = "[sha_build 3 ''abc123def456'', sha_build 7 ''abc123def456'',
                   sha_build 5 ''abc123def456'']"
  have 1: "job_response three_matches_world
             = Inr \<lparr> job_builds = Some [\<lparr> ref_number = 3 \<rparr>, \<lparr> ref_number = 7 \<rparr>,
                                       \<lparr> ref_number = 5 \<rparr>] \<rparr>"
    by (simp add: three_matches_world_def)
  have 2: "job_builds \<lparr> job_builds = Some [\<lparr> ref_number = 3 \<rparr>, \<lparr> ref_number = 7 \<rparr>,
                                        \<lparr> ref_number = 5 \<rparr>] \<rparr>
             = Some [\<lparr> ref_number = 3 \<rparr>, \<lparr> ref_number = 7 \<rparr>, \<lparr> ref_number = 5 \<rparr>]"
    by simp
  have 3: "map (\<lambda>r. build_response three_matches_world (ref_number r))
             (slice0 [\<lparr> ref_number = 3 \<rparr>, \<lparr> ref_number = 7 \<rparr>, \<lparr> ref_number = 5 \<rparr>] 50)
           = map Inr ?fetched"
    by (simp add: three_matches_world_def slice0_def)
  have 4: "filter (\<lambda>b. buildMatches b (toLowerCase (trim ''abc123''))) ?fetched = ?fetched"
    by code_simp
  have 5: "hd (sortByNumberDesc ?fetched) = sha_build 7 ''abc123def456''"
    by code_simp
  show ?thesis
    using 4 5 locator_returns_highest_number [OF 1 2 3, of "''abc123''"]
    by (simp add: sha_build_def)
qed

section \<open>Bounded wait for a build\<close>

text \<open>
  While every fetch reports a running build, the loop leaves through the timeout branch
  of the first round whose check time lies past the deadline: with too little fuel for
  that round it has not settled, with more it has thrown there.
\<close>

lemma waitLoop_exact:
  assumes "\<forall>k. \<exists>b. snd (fetch k) = Inr b \<and> b_building b"
    and "\<forall>j<n. checkTime fetch start poll (k + j) \<le> start + timeout"
    and "start + timeout < checkTime fetch start poll (k + n)"
  shows "waitLoop fuel fetch bn start timeout poll k (pollStart fetch start poll k)
           = (if fuel \<le> n then None
              else Some (checkTime fetch start poll (k + n), Inl (BuildTimeoutError bn)))"
  using assms(2,3)
proof (induction n arbitrary: k fuel)
  case 0
  from assms(1) obtain b where b: "snd (fetch k) = Inr b" "b_building b" by blast
  show ?case
  proof (cases fuel)
    case 0
    then show ?thesis by simp
  next
    case (Suc f)
    from "0.prems"(2) have "start + timeout < pollStart fetch start poll k + fst (fetch k)"
      by (simp add: checkTime_def)
    then have "timeout < pollStart fetch start poll k + fst (fetch k) - start"
      by arith
    with Suc b show ?thesis by (simp add: Let_def checkTime_def)
  qed
next
  case (Suc n)
  from assms(1) obtain b where b: "snd (fetch k) = Inr b" "b_building b" by blast
  from Suc.prems(1) have le: "checkTime fetch start poll k \<le> start + timeout"
    by (metis add.right_neutral zero_less_Suc)
  have a: "\<forall>j<n. checkTime fetch start poll (Suc k + j) \<le> start + timeout"
    using Suc.prems(1) by (metis Suc_less_eq add_Suc_right add_Suc_shift)
  have c: "start + timeout < checkTime fetch start poll (Suc k + n)"
    using Suc.prems(2) by simp
  show ?case
  proof (cases fuel)
    case 0
    then show ?thesis by simp
  next
    case (Suc f)
    from le have "pollStart fetch start poll k + fst (fetch k) \<le> start + timeout"
      by (simp add: checkTime_def)
    then have "\<not> timeout < pollStart fetch start poll k + fst (fetch k) - start"
      by arith
    then have "waitLoop (Suc f) fetch bn start timeout poll k (pollStart fetch start poll k)
            = waitLoop f fetch bn start timeout poll (Suc k) (pollStart fetch start poll (Suc k))"
      using b by (simp add: Let_def)
    also have "\<dots> = (if f \<le> n then None
              else Some (checkTime fetch start poll (Suc k + n), Inl (BuildTimeoutError bn)))"
      by (rule Suc.IH [OF a c])
    finally show ?thesis using Suc by simp
  qed
qed

lemma checkTime_grows:
  assumes "\<forall>k. 0 < fst (fetch k) + poll"
  shows "start + k \<le> pollStart fetch start poll k"
proof (induction k)
  case 0
  then show ?case by simp
next
  case (Suc k)
  have "0 < fst (fetch k) + poll" using assms by blast
  with Suc show ?case unfolding pollStart.simps by linarith
qed

lemma first_late_check:
  assumes "\<forall>k. 0 < fst (fetch k) + poll"
  shows "\<exists>K. start + timeout < checkTime fetch start poll K
             \<and> (\<forall>j<K. checkTime fetch start poll j \<le> start + timeout)"
proof -
  have "start + Suc timeout \<le> pollStart fetch start poll (Suc timeout)"
    using checkTime_grows [OF assms] by blast
  then have "start + timeout < checkTime fetch start poll (Suc timeout)"
    by (simp add: checkTime_def)
  then have "\<exists>K. start + timeout < checkTime fetch start poll K" by blast
  then obtain K where K: "start + timeout < checkTime fetch start poll K"
    and m: "\<forall>j<K. \<not> start + timeout < checkTime fetch start poll j"
    using exists_least_iff [of "\<lambda>K. start + timeout < checkTime fetch start poll K"] by blast
  from m have "\<forall>j<K. checkTime fetch start poll j \<le> start + timeout"
    by (simp add: not_less)
  with K show ?thesis by blast
qed

text \<open>
  C4, as the code has it. Let every fetch succeed and report a build that is still
  running, and let every round of the loop take some time. Then
  \<open>waitForBuildCompletion\<close> settles, and however much fuel it is given it settles in
  one way only: it throws the error \<open>Build #n did not complete within the timeout
  period\<close>, at a time later than \<open>startTime + timeoutMs\<close>. It returns no build and no
  timeout value. The time is exact: there is a first round \<open>K\<close> whose check time is
  later than \<open>startTime + timeoutMs\<close>, the checks of all rounds before it are not, and
  the error is thrown in round \<open>K\<close>, at the check time of that round.
\<close>

theorem bounded_wait_throws_after_deadline:
  assumes "\<forall>k. \<exists>b. snd (fetch k) = Inr b \<and> b_building b"
    and "\<forall>k. 0 < fst (fetch k) + pollIntervalMs"
  shows "(\<exists>fuel t. waitForBuildCompletion fuel fetch buildNumber startTime timeoutMs pollIntervalMs
                      = Some (t, Inl (BuildTimeoutError buildNumber))
                    \<and> startTime + timeoutMs < t)
         \<and> (\<forall>fuel t r. waitForBuildCompletion fuel fetch buildNumber startTime timeoutMs
                           pollIntervalMs = Some (t, r)
                \<longrightarrow> r = Inl (BuildTimeoutError buildNumber) \<and> startTime + timeoutMs < t)
         \<and> (\<exists>K. startTime + timeoutMs < checkTime fetch startTime pollIntervalMs K
                \<and> (\<forall>j<K. checkTime fetch startTime pollIntervalMs j \<le> startTime + timeoutMs)
                \<and> (\<forall>fuel. waitForBuildCompletion fuel fetch buildNumber startTime timeoutMs
                             pollIntervalMs
                           = (if fuel \<le> K then None
                              else Some (checkTime fetch startTime pollIntervalMs K,
                                         Inl (BuildTimeoutError buildNumber)))))"
proof -
  obtain K where K: "startTime + timeoutMs < checkTime fetch startTime pollIntervalMs K"
    and m: "\<forall>j<K. checkTime fetch startTime pollIntervalMs j \<le> startTime + timeoutMs"
    using first_late_check [OF assms(2)] by blast
  have ex: "\<forall>fuel. waitForBuildCompletion fuel fetch buildNumber startTime timeoutMs pollIntervalMs
                  = (if fuel \<le> K then None
                     else Some (checkTime fetch startTime pollIntervalMs K,
                                Inl (BuildTimeoutError buildNumber)))"
    unfolding waitForBuildCompletion_def
    using waitLoop_exact [OF assms(1), where n = K and k = 0 and start = startTime
            and poll = pollIntervalMs and timeout = timeoutMs and bn = buildNumber]
          K m by simp
  then have 1: "waitForBuildCompletion (Suc K) fetch buildNumber startTime timeoutMs pollIntervalMs
                  = Some (checkTime fetch startTime pollIntervalMs K,
                          Inl (BuildTimeoutError buildNumber))"
    by simp
  have 2: "\<forall>fuel t r. waitForBuildCompletion fuel fetch buildNumber startTime timeoutMs
                           pollIntervalMs = Some (t, r)
                \<longrightarrow> r = Inl (BuildTimeoutError buildNumber) \<and> startTime + timeoutMs < t"
    using ex K by (auto split: if_splits)
  show ?thesis using 1 2 K m ex by blast
qed

lemma pollStart_never_finishing: "pollStart never_finishing 1000 5 k = 1000 + 5 * k"
  by (induction k) (simp_all add: never_finishing_def)

text \<open>
  The theorem at a build that never finishes, polled every 5 ms with a timeout of 10 ms
  from time 1000. The checks are at 1000, 1005, 1010 and 1015; the one at 1010 is not
  past the deadline, and the error is thrown at 1015, in the fourth round.
\<close>

theorem bounded_wait_throws_after_deadline_witness:
  "(\<forall>fuel. waitForBuildCompletion fuel never_finishing 12 1000 10 5
            = (if fuel \<le> 3 then None else Some (1015, Inl (BuildTimeoutError 12))))
   \<and> checkTime never_finishing 1000 5 2 = 1000 + 10
   \<and> checkTime never_finishing 1000 5 3 = 1015"
proof -
  have 1: "\<forall>k. \<exists>b. snd (never_finishing k) = Inr b \<and> b_building b"
    by (simp add: never_finishing_def running_build_def)
  have 2: "\<forall>k. 0 < fst (never_finishing k) + (5::nat)"
    by simp
  have ct: "\<And>k. checkTime never_finishing 1000 5 k = 1000 + 5 * k"
    by (simp add: checkTime_def pollStart_never_finishing never_finishing_def)
  obtain K where a: "1000 + 10 < checkTime never_finishing 1000 5 K"
    and b: "\<forall>j<K. checkTime never_finishing 1000 5 j \<le> 1000 + 10"
    and c: "\<forall>fuel. waitForBuildCompletion fuel never_finishing 12 1000 10 5
                   = (if fuel \<le> K then None
                      else Some (checkTime never_finishing 1000 5 K, Inl (BuildTimeoutError 12)))"
    using bounded_wait_throws_after_deadline [OF 1 2, of 12 1000 10] by blast
  from a have lo: "3 \<le> K" by (simp add: ct)
  have hi: "K \<le> 3"
  proof (rule ccontr)
    assume "\<not> K \<le> 3"
    then have "3 < K" by simp
    with b have "checkTime never_finishing 1000 5 3 \<le> 1000 + 10" by blast
    then show False by (simp add: ct)
  qed
  from lo hi have K: "K = 3" by simp
  show ?thesis using c by (simp add: K ct)
qed

text \<open>
  C4 as stated fails: for the build that never finishes the function does not return a
  timeout outcome, it rejects with an error, at time 1015.
\<close>

theorem bounded_wait_counterexample:
  "waitForBuildCompletion 4 never_finishing 12 1000 10 5
     = Some (1015, Inl (BuildTimeoutError 12))"
  by code_simp

section \<open>Promotion with a pull request\<close>

lemmas promote_simps =
  promoteToEnvironmentWithPR_def step_def stages_of_def code_stages_def

text \<open>
  C1, as the code has it. In every world the stages \<open>promoteToEnvironmentWithPR\<close>
  goes through are an initial part of the chain \<open>CHECK_TARGET_EXISTS\<close>, \<open>CREATE_PR\<close>,
  \<open>AWAIT_PR_PIPELINE\<close>, \<open>MERGE_PR\<close>, \<open>SYNC_DEPLOYMENT\<close>, \<open>AWAIT_SYNC\<close>, in this
  order and without a gap; every stage that is followed by another one has succeeded;
  and the promotion resolves exactly when the whole chain has run and the last stage
  has succeeded. The chain has no stage \<open>AWAIT_PUSH_PIPELINE\<close>.
\<close>

theorem promotion_stage_order:
  "stages_of (fst (promoteToEnvironmentWithPR w environment img))
     = take (length (stages_of (fst (promoteToEnvironmentWithPR w environment img)))) code_stages
   \<and> list_all (stage_succeeded w environment img)
        (butlast (stages_of (fst (promoteToEnvironmentWithPR w environment img))))
   \<and> (snd (promoteToEnvironmentWithPR w environment img) = Inr ()
        \<longleftrightarrow> stages_of (fst (promoteToEnvironmentWithPR w environment img)) = code_stages
            \<and> stage_succeeded w environment img AWAIT_SYNC)"
proof (intro conjI)
  show "stages_of (fst (promoteToEnvironmentWithPR w environment img))
     = take (length (stages_of (fst (promoteToEnvironmentWithPR w environment img)))) code_stages"
    by (simp add: promote_simps split: sum.split option.split)
next
  show "list_all (stage_succeeded w environment img)
        (butlast (stages_of (fst (promoteToEnvironmentWithPR w environment img))))"
    by (simp add: promote_simps stage_succeeded_def split: sum.split option.split)
next
  show "snd (promoteToEnvironmentWithPR w environment img) = Inr ()
        \<longleftrightarrow> stages_of (fst (promoteToEnvironmentWithPR w environment img)) = code_stages
            \<and> stage_succeeded w environment img AWAIT_SYNC"
    by (simp add: promote_simps stage_succeeded_def split: sum.split option.split)
qed

text \<open>The theorem in the world in which every collaborator succeeds.\<close>

theorem promotion_stage_order_witness:
  "stages_of (fst (promoteToEnvironmentWithPR (promotion_world SUCCESS) ''dev'' ''quay.io/org/app:1''))
     = [CHECK_TARGET_EXISTS, CREATE_PR, AWAIT_PR_PIPELINE, MERGE_PR, SYNC_DEPLOYMENT, AWAIT_SYNC]
   \<and> snd (promoteToEnvironmentWithPR (promotion_world SUCCESS) ''dev'' ''quay.io/org/app:1'') = Inr ()"
proof -
  have 1: "snd (promoteToEnvironmentWithPR (promotion_world SUCCESS) ''dev'' ''quay.io/org/app:1'') = Inr ()"
    by (simp add: promoteToEnvironmentWithPR_def step_def promotion_world_def
        expectPipelineSuccess_spec_def)
  show ?thesis
    using 1 promotion_stage_order [of "promotion_world SUCCESS" "''dev''" "''quay.io/org/app:1''"]
    by (simp add: code_stages_def)
qed

text \<open>
  C1 as stated fails: in the world in which every collaborator succeeds the promotion
  resolves, and its stages are not the chain of the specification. After
  \<open>mergePullRequest\<close> the next call is \<open>syncApplication\<close>; no push pipeline is
  looked up or awaited.
\<close>

theorem promotion_stage_order_counterexample:
  "snd (promoteToEnvironmentWithPR (promotion_world SUCCESS) ''dev'' ''quay.io/org/app:1'') = Inr ()
   \<and> stages_of (fst (promoteToEnvironmentWithPR (promotion_world SUCCESS) ''dev'' ''quay.io/org/app:1''))
       \<noteq> spec_stages
   \<and> AWAIT_PUSH_PIPELINE
       \<notin> set (stages_of (fst (promoteToEnvironmentWithPR (promotion_world SUCCESS) ''dev''
                                 ''quay.io/org/app:1'')))
   \<and> fst (promoteToEnvironmentWithPR (promotion_world SUCCESS) ''dev'' ''quay.io/org/app:1'')
       = [GetApplication ''dev'',
          CreatePromotionPullRequestOnGitopsRepo ''dev'' ''quay.io/org/app:1'',
          GetPipeline promotion_pr (Some RUNNING) (Some EV_PULL_REQUEST),
          WaitForPipelineToFinish pr_pipeline,
          ExpectPipelineSuccess pr_pipeline,
          MergePullRequest promotion_pr,
          SyncApplication ''dev'',
          WaitUntilApplicationIsSynced ''dev'' ''cafef00d'']"
  by (simp add: promoteToEnvironmentWithPR_def step_def promotion_world_def
      expectPipelineSuccess_spec_def stages_of_def spec_stages_def
      merged_pr_def)

text \<open>
  C2. Let \<open>expectPipelineSuccess\<close> be the helper of the specification, and let the
  wait for the pull-request pipeline never end with \<open>SUCCESS\<close> (it ends with another
  status, or it throws). Then \<open>promoteToEnvironmentWithPR\<close> calls neither
  \<open>mergePullRequest\<close> nor \<open>syncApplication\<close>, and it rejects with an error.
\<close>

theorem failed_pr_pipeline_blocks_merge:
  assumes "expectPipelineSuccess_result w = expectPipelineSuccess_spec"
    and "\<forall>p. waitForPipelineToFinish_result w p \<noteq> Inr SUCCESS"
  shows "filter is_merge (fst (promoteToEnvironmentWithPR w environment img)) = []
         \<and> filter is_sync (fst (promoteToEnvironmentWithPR w environment img)) = []
         \<and> (\<exists>e. snd (promoteToEnvironmentWithPR w environment img) = Inl e)"
  using assms
  by (auto simp add: promoteToEnvironmentWithPR_def step_def is_merge_def is_sync_def
      expectPipelineSuccess_spec_def split: sum.split option.split)

text \<open>
  The theorem in the world in which the pull-request pipeline ends with \<open>FAILURE\<close>
  and everything else would succeed.
\<close>

theorem failed_pr_pipeline_blocks_merge_witness:
  "filter is_merge (fst (promoteToEnvironmentWithPR (promotion_world FAILURE) ''dev''
                           ''quay.io/org/app:1'')) = []
   \<and> filter is_sync (fst (promoteToEnvironmentWithPR (promotion_world FAILURE) ''dev''
                            ''quay.io/org/app:1'')) = []
   \<and> snd (promoteToEnvironmentWithPR (promotion_world FAILURE) ''dev'' ''quay.io/org/app:1'')
       = Inl (AssertionError ''pipeline was not successful'')"
proof -
  have 1: "expectPipelineSuccess_result (promotion_world FAILURE) = expectPipelineSuccess_spec"
    by (simp add: promotion_world_def)
  have 2: "\<forall>p. waitForPipelineToFinish_result (promotion_world FAILURE) p \<noteq> Inr SUCCESS"
    by (simp add: promotion_world_def)
  have 3: "snd (promoteToEnvironmentWithPR (promotion_world FAILURE) ''dev'' ''quay.io/org/app:1'')
       = Inl (AssertionError ''pipeline was not successful'')"
    by (simp add: promoteToEnvironmentWithPR_def step_def promotion_world_def
        expectPipelineSuccess_spec_def)
  show ?thesis
    using 3 failed_pr_pipeline_blocks_merge [OF 1 2, of "''dev''" "''quay.io/org/app:1''"]
    by simp
qed

end
